theory Spec2Isabelle
  imports Complex_Main "HOL-Library.AList"
begin

section \<open>mySQLdbConnector: the Connection wrapper and its Row\<close>

text \<open>
  A shallow embedding of \<^verbatim>\<open>mySQLdbConnector.py\<close>. The module wraps one
  connection of the MySQL driver. Everything the driver and the interpreter
  decide (what the clock reads, whether a connect succeeds, what a statement
  returns or raises, how \<^verbatim>\<open>int\<close> reads a string) is a field of an
  environment \<open>env\<close>; everything the module changes is either a field of the
  \<open>Connection\<close> object or of the \<open>world\<close> (counters of the calls made on the
  collaborators and the trace of those calls).
\<close>

subsection \<open>Values, exceptions, parameters\<close>

datatype val = PyNone | PyBool bool | PyInt int | PyStr string

text \<open>
  The exceptions the module meets. \<open>OperationalError\<close> and \<open>IntegrityError\<close> are the
  two aliases of the driver's classes at the end of the module, \<open>DriverError\<close> is any
  other error of the driver, \<open>PyException\<close> is a plain \<^verbatim>\<open>Exception(msg)\<close>. All of
  them derive from \<^verbatim>\<open>Exception\<close>.
\<close>

datatype exn =
    OperationalError string
  | IntegrityError string
  | DriverError string
  | ValueError string
  | TypeError string
  | KeyError string
  | AttributeError string
  | PyException string
  | StopIteration

fun is_OperationalError :: "exn \<Rightarrow> bool" where
  "is_OperationalError (OperationalError m) = True"
| "is_OperationalError e = False"

text \<open>
  \<^verbatim>\<open>*parameters\<close> is a tuple of values, \<^verbatim>\<open>**kwparameters\<close> a dict from names to
  values (keys in insertion order). What reaches \<^verbatim>\<open>cursor.execute\<close> is one of the
  two.
\<close>

type_synonym params = "val list"
type_synonym kwparams = "(string \<times> val) list"

datatype bound = Positional params | Named kwparams

subsection \<open>The collaborators\<close>

text \<open>
  What a cursor holds after a statement ran: \<^verbatim>\<open>description\<close> (\<^verbatim>\<open>None\<close> when the
  statement has no result set, else one entry per column, of which the module reads
  only \<^verbatim>\<open>d[0]\<close>, the name), the rows it iterates over, \<^verbatim>\<open>lastrowid\<close> and
  \<^verbatim>\<open>rowcount\<close>.
\<close>

record cursor_data =
  description :: "string list option"
  rows :: "val list list"
  lastrowid :: val
  rowcount :: int

text \<open>
  The environment. \<open>time_time env n\<close> is what the \<open>n\<close>-th call of \<^verbatim>\<open>time.time()\<close>
  returns. Times are floats in Python: here a float is the real number it denotes, the
  comparison of two floats is the comparison of these reals, and \<open>float_sub env a b\<close> is
  the float \<^verbatim>\<open>a - b\<close>, the difference as the interpreter rounds it;
  \<open>Connect env n\<close> is \<open>Some e\<close> when the \<open>n\<close>-th call of \<^verbatim>\<open>MySQLConnector.Connect\<close>
  raises \<open>e\<close>; \<open>cursor_execute env k q b\<close> is what \<^verbatim>\<open>execute(q, b)\<close> does on the
  \<open>k\<close>-th cursor, \<open>cursor_executemany\<close> likewise; \<open>py_int\<close> is the builtin \<^verbatim>\<open>int\<close> on
  strings. Closing a handle or a cursor, making a cursor, setting \<^verbatim>\<open>autocommit\<close>
  and logging are taken not to raise.
\<close>

record env =
  py_int :: "string \<Rightarrow> exn + int"
  time_time :: "nat \<Rightarrow> real"
  float_sub :: "real \<Rightarrow> real \<Rightarrow> real"
  Connect :: "nat \<Rightarrow> exn option"
  cursor_execute :: "nat \<Rightarrow> string \<Rightarrow> bound \<Rightarrow> exn + cursor_data"
  cursor_executemany :: "nat \<Rightarrow> string \<Rightarrow> val list list \<Rightarrow> exn + cursor_data"

text \<open>
  The calls made on the collaborators, in order. A handle is named by the number of the
  \<^verbatim>\<open>Connect\<close> call that made it, a cursor by the number of cursors made before it.
\<close>

datatype event =
    LogError string
  | ConnectCall nat "(string \<times> val) list"
  | SetAutocommit nat
  | HandleClose nat
  | CursorOpen nat "nat option"
  | CursorExecute nat string bound
  | CursorExecuteMany nat string "val list list"
  | CursorClose nat

record world =
  clock_reads :: nat
  connects :: nat
  cursors :: nat
  trace :: "event list"

definition emit :: "event \<Rightarrow> world \<Rightarrow> world" where
  "emit e w = w\<lparr>trace := trace w @ [e]\<rparr>"

definition time_now :: "env \<Rightarrow> world \<Rightarrow> real \<times> world" where
  "time_now env w = (time_time env (clock_reads w), w\<lparr>clock_reads := Suc (clock_reads w)\<rparr>)"

definition logging_error :: "string \<Rightarrow> world \<Rightarrow> world" where
  "logging_error msg w = emit (LogError msg) w"

definition new_cursor :: "nat option \<Rightarrow> world \<Rightarrow> nat \<times> world" where
  "new_cursor h w = (cursors w, emit (CursorOpen (cursors w) h) (w\<lparr>cursors := Suc (cursors w)\<rparr>))"

definition cursor_close :: "nat \<Rightarrow> world \<Rightarrow> world" where
  "cursor_close k w = emit (CursorClose k) w"

subsection \<open>Row\<close>

text \<open>
  \<^verbatim>\<open>class Row(dict)\<close>. A dict is an association list with distinct keys, in insertion
  order; \<^verbatim>\<open>dict(pairs)\<close> stores the pairs one by one, a later pair overwriting the
  value of an equal key.
\<close>

type_synonym row = "(string \<times> val) list"

definition Row :: "(string \<times> val) list \<Rightarrow> row" where
  "Row pairs = foldl (\<lambda>d (k, v). AList.update k v d) [] pairs"

text \<open>\<^verbatim>\<open>self[name]\<close>: the dict's own lookup, which raises \<^verbatim>\<open>KeyError\<close>.\<close>

definition getitem :: "row \<Rightarrow> string \<Rightarrow> exn + val" where
  "getitem r name = (case map_of r name of None \<Rightarrow> Inl (KeyError name) | Some v \<Rightarrow> Inr v)"

text \<open>\<^verbatim>\<open>Row.__getattr__\<close>.\<close>

definition Row_getattr :: "row \<Rightarrow> string \<Rightarrow> exn + val" where
  "Row_getattr r name =
     (case getitem r name of
        Inr v \<Rightarrow> Inr v
      | Inl (KeyError k) \<Rightarrow> Inl (AttributeError name)
      | Inl e \<Rightarrow> Inl e)"

text \<open>
  Attribute access \<^verbatim>\<open>row.name\<close>. Python calls \<^verbatim>\<open>__getattr__\<close> only when the normal
  lookup finds nothing: a name that is an attribute of every dict (its methods) is found
  there first, and what comes back is the bound method. \<open>dict_methods\<close> are the public
  methods of \<^verbatim>\<open>dict\<close>; \<open>special\<close> stands for the other names the interpreter finds on
  a Row object (\<^verbatim>\<open>__class__\<close>, \<^verbatim>\<open>__len__\<close>, \<^verbatim>\<open>__dict__\<close> and the like), which
  depend on its version.
\<close>

datatype attr = BoundMethod string | Column val

definition dict_methods :: "string list" where
  "dict_methods =
     [''clear'', ''copy'', ''fromkeys'', ''get'', ''items'', ''keys'', ''pop'',
      ''popitem'', ''setdefault'', ''update'', ''values'']"

definition normal_lookup :: "(string \<Rightarrow> bool) \<Rightarrow> string \<Rightarrow> bool" where
  "normal_lookup special name = (name \<in> set dict_methods \<or> special name)"

definition attribute :: "(string \<Rightarrow> bool) \<Rightarrow> row \<Rightarrow> string \<Rightarrow> exn + attr" where
  "attribute special r name =
     (if normal_lookup special name then Inr (BoundMethod name)
      else case Row_getattr r name of Inl e \<Rightarrow> Inl e | Inr v \<Rightarrow> Inr (Column v))"

subsection \<open>Connection\<close>

text \<open>
  The fields of a Connection. \<open>db\<close> is \<^verbatim>\<open>self._db\<close> (\<open>None\<close> when there is no handle),
  \<open>db_args\<close> is \<^verbatim>\<open>self._db_args\<close>, \<open>last_use_time\<close> is \<^verbatim>\<open>self._last_use_time\<close>. The
  attribute \<^verbatim>\<open>socket\<close>, set to \<^verbatim>\<open>None\<close> on one branch of the constructor and read
  nowhere, is left out.
\<close>

record Connection =
  host :: string
  database :: string
  max_idle_time :: real
  db :: "nat option"
  db_args :: "(string \<times> val) list"
  last_use_time :: real

type_synonym state = "Connection \<times> world"

text \<open>\<^verbatim>\<open>str.split(sep)\<close> for a separator of one character.\<close>

fun str_split :: "char \<Rightarrow> string \<Rightarrow> string list" where
  "str_split sep [] = [[]]"
| "str_split sep (x # xs) =
     (if x = sep then [] # str_split sep xs
      else (case str_split sep xs of
              [] \<Rightarrow> [[x]]
            | y # ys \<Rightarrow> (x # y) # ys))"

text \<open>
  The constructor's reading of \<^verbatim>\<open>host\<close>: a path to a socket file or a
  \<^verbatim>\<open>host(:port)\<close> string. \<^verbatim>\<open>int(pair[1])\<close> may raise \<^verbatim>\<open>ValueError\<close>.
\<close>

definition host_args ::
  "env \<Rightarrow> string \<Rightarrow> (string \<times> val) list \<Rightarrow> exn + (string \<times> val) list" where
  "host_args env host' args =
     (if CHR ''/'' \<in> set host' then Inr (AList.update ''unix_socket'' (PyStr host') args)
      else
        (let pair = str_split CHR '':'' host' in
         if length pair = 2 then
           (case py_int env (pair ! 1) of
              Inl e \<Rightarrow> Inl e
            | Inr p \<Rightarrow>
                Inr (AList.update ''port'' (PyInt p)
                      (AList.update ''host'' (PyStr (pair ! 0)) args)))
         else
           Inr (AList.update ''port'' (PyInt 3306)
                 (AList.update ''host'' (PyStr host') args))))"

text \<open>\<^verbatim>\<open>close\<close>: closes the handle if there is one.\<close>

definition close :: "state \<Rightarrow> state" where
  "close s =
     (case s of (c, w) \<Rightarrow>
        (case db c of
           None \<Rightarrow> (c, w)
         | Some h \<Rightarrow> (c\<lparr>db := None\<rparr>, emit (HandleClose h) w)))"

text \<open>\<^verbatim>\<open>reconnect\<close>: closes the existing handle and opens a new one.\<close>

definition reconnect :: "env \<Rightarrow> state \<Rightarrow> (exn + unit) \<times> state" where
  "reconnect env s =
     (case close s of (c, w) \<Rightarrow>
        (let n = connects w;
             w1 = emit (ConnectCall n (db_args c)) (w\<lparr>connects := Suc n\<rparr>)
         in case Connect env n of
              Some e \<Rightarrow> (Inl e, (c, w1))
            | None \<Rightarrow> (Inr (), (c\<lparr>db := Some n\<rparr>, emit (SetAutocommit n) w1))))"

text \<open>
  \<^verbatim>\<open>__init__\<close>: \<open>base_args\<close> is the dict \<^verbatim>\<open>args\<close> before the host is read, and
  the parameter \<open>max_idle\<close> is the float that \<^verbatim>\<open>float(max_idle_time)\<close> returned. A
  failed first connect is logged and swallowed (every exception of the model derives
  from \<^verbatim>\<open>Exception\<close>). The defaults of the keyword arguments are \<open>default_max_idle_time\<close>,
  \<open>default_connect_timeout\<close> and \<open>default_time_zone\<close>.
\<close>

definition default_max_idle_time :: real where
  "default_max_idle_time = 8 * 3600"

definition default_connect_timeout :: val where
  "default_connect_timeout = PyInt 4"

definition default_time_zone :: string where
  "default_time_zone = ''+0:00''"

definition base_args ::
  "string \<Rightarrow> string option \<Rightarrow> string option \<Rightarrow> val \<Rightarrow> string \<Rightarrow> (string \<times> val) list" where
  "base_args database' user password connect_timeout time_zone =
     (let args0 = [(''use_unicode'', PyBool True), (''charset'', PyStr ''utf8''),
                   (''db'', PyStr database'), (''time_zone'', PyStr time_zone),
                   (''connect_timeout'', connect_timeout),
                   (''sql_mode'', PyStr ''TRADITIONAL'')];
          args1 = (case user of None \<Rightarrow> args0
                   | Some u \<Rightarrow> AList.update ''user'' (PyStr u) args0)
      in (case password of None \<Rightarrow> args1
          | Some p \<Rightarrow> AList.update ''passwd'' (PyStr p) args1))"

definition Connection_init ::
  "env \<Rightarrow> string \<Rightarrow> string \<Rightarrow> string option \<Rightarrow> string option \<Rightarrow> real \<Rightarrow> val \<Rightarrow> string
     \<Rightarrow> world \<Rightarrow> (exn + Connection) \<times> world" where
  "Connection_init env host' database' user password max_idle connect_timeout time_zone w =
     (case host_args env host' (base_args database' user password connect_timeout time_zone) of
        Inl e \<Rightarrow> (Inl e, w)
      | Inr args \<Rightarrow>
          (case time_now env w of (t, w1) \<Rightarrow>
             (case reconnect env
                     (\<lparr>host = host', database = database', max_idle_time = max_idle,
                       db = None, db_args = args, last_use_time = t\<rparr>, w1) of
                (Inl e, (c, w2)) \<Rightarrow>
                  (Inr c, logging_error (''Cannot connect to MySQL on '' @ host') w2)
              | (Inr u, (c, w2)) \<Rightarrow> (Inr c, w2))))"

text \<open>
  What the constructor left under a key of \<^verbatim>\<open>_db_args\<close>, or the exception it raised.
\<close>

definition resolved :: "exn + Connection \<Rightarrow> string \<Rightarrow> exn + val option" where
  "resolved r key = (case r of Inl e \<Rightarrow> Inl e | Inr c \<Rightarrow> Inr (map_of (db_args c) key))"

text \<open>
  \<^verbatim>\<open>_ensure_connected\<close>. The \<^verbatim>\<open>or\<close> of the condition reads the clock only when
  there is a handle; the idle time is the float difference
  \<^verbatim>\<open>time.time() - self._last_use_time\<close>.
\<close>

definition touch :: "env \<Rightarrow> state \<Rightarrow> state" where
  "touch env s =
     (case s of (c, w) \<Rightarrow>
        (case time_now env w of (t, w1) \<Rightarrow> (c\<lparr>last_use_time := t\<rparr>, w1)))"

definition priv_ensure_connected :: "env \<Rightarrow> state \<Rightarrow> (exn + unit) \<times> state" where
  "priv_ensure_connected env s =
     (case s of (c, w) \<Rightarrow>
        (case (case db c of
                 None \<Rightarrow> (True, w)
               | Some h \<Rightarrow>
                   (case time_now env w of (t, w1) \<Rightarrow>
                      (float_sub env t (last_use_time c) > max_idle_time c, w1))) of
           (stale, w1) \<Rightarrow>
             if stale then
               (case reconnect env (c, w1) of
                  (Inl e, s1) \<Rightarrow> (Inl e, s1)
                | (Inr u, s1) \<Rightarrow> (Inr (), touch env s1))
             else (Inr (), touch env (c, w1))))"

text \<open>\<^verbatim>\<open>_cursor\<close>. On \<^verbatim>\<open>None\<close>, \<^verbatim>\<open>self._db.cursor()\<close> is an \<^verbatim>\<open>AttributeError\<close>.\<close>

definition priv_cursor :: "env \<Rightarrow> state \<Rightarrow> (exn + nat) \<times> state" where
  "priv_cursor env s =
     (case priv_ensure_connected env s of
        (Inl e, s1) \<Rightarrow> (Inl e, s1)
      | (Inr u, (c, w)) \<Rightarrow>
          (case db c of
             None \<Rightarrow> (Inl (AttributeError ''cursor''), (c, w))
           | Some h \<Rightarrow> (case new_cursor (Some h) w of (k, w1) \<Rightarrow> (Inr k, (c, w1)))))"

text \<open>
  \<^verbatim>\<open>_execute\<close>. \<open>bound_of\<close> is \<^verbatim>\<open>kwparameters or parameters\<close>: a dict is false
  exactly when it is empty. The result is the cursor's data after the statement, which
  the callers read from the cursor.
\<close>

definition bound_of :: "params \<Rightarrow> kwparams \<Rightarrow> bound" where
  "bound_of parameters kwparameters =
     (if kwparameters \<noteq> [] then Named kwparameters else Positional parameters)"

definition priv_execute ::
  "env \<Rightarrow> nat \<Rightarrow> string \<Rightarrow> params \<Rightarrow> kwparams \<Rightarrow> state \<Rightarrow> (exn + cursor_data) \<times> state" where
  "priv_execute env k q parameters kwparameters s =
     (case s of (c, w) \<Rightarrow>
        (let b = bound_of parameters kwparameters;
             w1 = emit (CursorExecute k q b) w
         in case cursor_execute env k q b of
              Inr d \<Rightarrow> (Inr d, (c, w1))
            | Inl e \<Rightarrow>
                if is_OperationalError e then
                  (Inl e, close (c, logging_error (''error connecting to MySQL on '' @ host c) w1))
                else (Inl e, (c, w1))))"

text \<open>\<^verbatim>\<open>finally: cursor.close()\<close>.\<close>

definition finally_close :: "nat \<Rightarrow> 'a \<times> state \<Rightarrow> 'a \<times> state" where
  "finally_close k x = (case x of (r, (c, w)) \<Rightarrow> (r, (c, cursor_close k w)))"

text \<open>The rows of a result set as Rows; without a description, iterating \<^verbatim>\<open>None\<close> fails.\<close>

definition column_names :: "cursor_data \<Rightarrow> exn + string list" where
  "column_names d =
     (case description d of
        None \<Rightarrow> Inl (TypeError ''NoneType object is not iterable'')
      | Some cols \<Rightarrow> Inr cols)"

definition query ::
  "env \<Rightarrow> string \<Rightarrow> params \<Rightarrow> kwparams \<Rightarrow> state \<Rightarrow> (exn + row list) \<times> state" where
  "query env q parameters kwparameters s =
     (case priv_cursor env s of
        (Inl e, s1) \<Rightarrow> (Inl e, s1)
      | (Inr k, s1) \<Rightarrow>
          finally_close k
            (case priv_execute env k q parameters kwparameters s1 of
               (Inl e, s2) \<Rightarrow> (Inl e, s2)
             | (Inr d, s2) \<Rightarrow>
                 (case column_names d of
                    Inl e \<Rightarrow> (Inl e, s2)
                  | Inr cols \<Rightarrow> (Inr (map (\<lambda>r. Row (zip cols r)) (rows d)), s2))))"

definition get ::
  "env \<Rightarrow> string \<Rightarrow> params \<Rightarrow> kwparams \<Rightarrow> state \<Rightarrow> (exn + row option) \<times> state" where
  "get env q parameters kwparameters s =
     (case query env q parameters kwparameters s of
        (Inl e, s1) \<Rightarrow> (Inl e, s1)
      | (Inr rs, s1) \<Rightarrow>
          (if rs = [] then (Inr None, s1)
           else if length rs > 1 then
             (Inl (PyException ''Multiple rows returned for Database.get() query''), s1)
           else (Inr (Some (rs ! 0)), s1)))"

definition execute_lastrowid ::
  "env \<Rightarrow> string \<Rightarrow> params \<Rightarrow> kwparams \<Rightarrow> state \<Rightarrow> (exn + val) \<times> state" where
  "execute_lastrowid env q parameters kwparameters s =
     (case priv_cursor env s of
        (Inl e, s1) \<Rightarrow> (Inl e, s1)
      | (Inr k, s1) \<Rightarrow>
          finally_close k
            (case priv_execute env k q parameters kwparameters s1 of
               (Inl e, s2) \<Rightarrow> (Inl e, s2)
             | (Inr d, s2) \<Rightarrow> (Inr (lastrowid d), s2)))"

definition execute ::
  "env \<Rightarrow> string \<Rightarrow> params \<Rightarrow> kwparams \<Rightarrow> state \<Rightarrow> (exn + val) \<times> state" where
  "execute env q parameters kwparameters s = execute_lastrowid env q parameters kwparameters s"

definition execute_rowcount ::
  "env \<Rightarrow> string \<Rightarrow> params \<Rightarrow> kwparams \<Rightarrow> state \<Rightarrow> (exn + int) \<times> state" where
  "execute_rowcount env q parameters kwparameters s =
     (case priv_cursor env s of
        (Inl e, s1) \<Rightarrow> (Inl e, s1)
      | (Inr k, s1) \<Rightarrow>
          finally_close k
            (case priv_execute env k q parameters kwparameters s1 of
               (Inl e, s2) \<Rightarrow> (Inl e, s2)
             | (Inr d, s2) \<Rightarrow> (Inr (rowcount d), s2)))"

text \<open>The batch variants call \<^verbatim>\<open>cursor.executemany\<close> themselves.\<close>

definition run_executemany ::
  "env \<Rightarrow> nat \<Rightarrow> string \<Rightarrow> val list list \<Rightarrow> state \<Rightarrow> (exn + cursor_data) \<times> state" where
  "run_executemany env k q parameters s =
     (case s of (c, w) \<Rightarrow>
        (cursor_executemany env k q parameters, (c, emit (CursorExecuteMany k q parameters) w)))"

definition executemany_lastrowid ::
  "env \<Rightarrow> string \<Rightarrow> val list list \<Rightarrow> state \<Rightarrow> (exn + val) \<times> state" where
  "executemany_lastrowid env q parameters s =
     (case priv_cursor env s of
        (Inl e, s1) \<Rightarrow> (Inl e, s1)
      | (Inr k, s1) \<Rightarrow>
          finally_close k
            (case run_executemany env k q parameters s1 of
               (Inl e, s2) \<Rightarrow> (Inl e, s2)
             | (Inr d, s2) \<Rightarrow> (Inr (lastrowid d), s2)))"

definition executemany ::
  "env \<Rightarrow> string \<Rightarrow> val list list \<Rightarrow> state \<Rightarrow> (exn + val) \<times> state" where
  "executemany env q parameters s = executemany_lastrowid env q parameters s"

definition executemany_rowcount ::
  "env \<Rightarrow> string \<Rightarrow> val list list \<Rightarrow> state \<Rightarrow> (exn + int) \<times> state" where
  "executemany_rowcount env q parameters s =
     (case priv_cursor env s of
        (Inl e, s1) \<Rightarrow> (Inl e, s1)
      | (Inr k, s1) \<Rightarrow>
          finally_close k
            (case run_executemany env k q parameters s1 of
               (Inl e, s2) \<Rightarrow> (Inl e, s2)
             | (Inr d, s2) \<Rightarrow> (Inr (rowcount d), s2)))"

text \<open>The aliases at the end of the class.\<close>

definition update ::
  "env \<Rightarrow> string \<Rightarrow> params \<Rightarrow> kwparams \<Rightarrow> state \<Rightarrow> (exn + int) \<times> state" where
  "update = execute_rowcount"

definition updatemany ::
  "env \<Rightarrow> string \<Rightarrow> val list list \<Rightarrow> state \<Rightarrow> (exn + int) \<times> state" where
  "updatemany = executemany_rowcount"

definition insert_alias ::
  "env \<Rightarrow> string \<Rightarrow> params \<Rightarrow> kwparams \<Rightarrow> state \<Rightarrow> (exn + val) \<times> state" where
  "insert_alias = execute_lastrowid"

definition insertmany ::
  "env \<Rightarrow> string \<Rightarrow> val list list \<Rightarrow> state \<Rightarrow> (exn + val) \<times> state" where
  "insertmany = executemany_lastrowid"

subsection \<open>The generator of iter\<close>

text \<open>
  \<^verbatim>\<open>iter\<close> is a generator function: the call runs nothing and returns a generator,
  here \<open>Created\<close> with the arguments. The first \<^verbatim>\<open>next\<close> runs the body up to the first
  \<^verbatim>\<open>yield\<close>, where the generator is \<open>Suspended\<close> inside the \<^verbatim>\<open>try\<close>, holding the
  cursor, the column names and the rows still to come. \<^verbatim>\<open>close()\<close> on a suspended
  generator (what the interpreter calls when the generator is dropped) raises
  \<^verbatim>\<open>GeneratorExit\<close> at the \<^verbatim>\<open>yield\<close>, so the \<^verbatim>\<open>finally\<close> runs.
\<close>

datatype gen =
    Created string params kwparams
  | Suspended nat "string list" "val list list"
  | Finished

definition iter :: "string \<Rightarrow> params \<Rightarrow> kwparams \<Rightarrow> gen" where
  "iter q parameters kwparameters = Created q parameters kwparameters"

text \<open>The loop \<^verbatim>\<open>for row in cursor: yield ...\<close> from the rows still to come.\<close>

definition iter_loop ::
  "nat \<Rightarrow> string list \<Rightarrow> val list list \<Rightarrow> state \<Rightarrow> (exn + row) \<times> gen \<times> state" where
  "iter_loop k cols rs s =
     (case rs of
        [] \<Rightarrow> (case s of (c, w) \<Rightarrow> (Inl StopIteration, Finished, (c, cursor_close k w)))
      | r # rest \<Rightarrow> (Inr (Row (zip cols r)), Suspended k cols rest, s))"

fun gen_next :: "env \<Rightarrow> gen \<Rightarrow> state \<Rightarrow> (exn + row) \<times> gen \<times> state" where
  "gen_next env (Created q parameters kwparameters) s =
     (case priv_ensure_connected env s of
        (Inl e, s1) \<Rightarrow> (Inl e, Finished, s1)
      | (Inr u, (c, w)) \<Rightarrow>
          (case new_cursor (db c) w of (k, w1) \<Rightarrow>
             (case priv_execute env k q parameters kwparameters (c, w1) of
                (Inl e, (c2, w2)) \<Rightarrow> (Inl e, Finished, (c2, cursor_close k w2))
              | (Inr d, (c2, w2)) \<Rightarrow>
                  (case column_names d of
                     Inl e \<Rightarrow> (Inl e, Finished, (c2, cursor_close k w2))
                   | Inr cols \<Rightarrow> iter_loop k cols (rows d) (c2, w2)))))"
| "gen_next env (Suspended k cols rs) s = iter_loop k cols rs s"
| "gen_next env Finished s = (Inl StopIteration, Finished, s)"

fun gen_close :: "gen \<Rightarrow> state \<Rightarrow> gen \<times> state" where
  "gen_close (Created q parameters kwparameters) s = (Finished, s)"
| "gen_close (Suspended k cols rs) (c, w) = (Finished, (c, cursor_close k w))"
| "gen_close Finished s = (Finished, s)"

text \<open>
  A consumer that asks for at most \<open>n\<close> rows and then drops the generator: a
  \<^verbatim>\<open>for\<close> loop over \<^verbatim>\<open>iter(...)\<close> that breaks after \<open>n\<close> rows, or runs to the end.
\<close>

fun consume :: "nat \<Rightarrow> env \<Rightarrow> gen \<Rightarrow> state \<Rightarrow> (exn + row list) \<times> gen \<times> state" where
  "consume 0 env g s = (Inr [], gen_close g s)"
| "consume (Suc n) env g s =
     (case gen_next env g s of
        (Inl e, g1, s1) \<Rightarrow> ((if e = StopIteration then Inr [] else Inl e), gen_close g1 s1)
      | (Inr r, g1, s1) \<Rightarrow>
          (case consume n env g1 s1 of
             (Inl e, x) \<Rightarrow> (Inl e, x)
           | (Inr rs, x) \<Rightarrow> (Inr (r # rs), x)))"

subsection \<open>Reading the trace\<close>

fun opened_cursors :: "event list \<Rightarrow> nat list" where
  "opened_cursors [] = []"
| "opened_cursors (CursorOpen k h # es) = k # opened_cursors es"
| "opened_cursors (e # es) = opened_cursors es"

fun closed_cursors :: "event list \<Rightarrow> nat list" where
  "closed_cursors [] = []"
| "closed_cursors (CursorClose k # es) = k # closed_cursors es"
| "closed_cursors (e # es) = closed_cursors es"

fun executed :: "event list \<Rightarrow> (nat \<times> string \<times> bound) list" where
  "executed [] = []"
| "executed (CursorExecute k q b # es) = (k, q, b) # executed es"
| "executed (e # es) = executed es"

fun logged :: "event list \<Rightarrow> string list" where
  "logged [] = []"
| "logged (LogError m # es) = m # logged es"
| "logged (e # es) = logged es"

text \<open>The events an operation added to the trace.\<close>

definition since :: "world \<Rightarrow> world \<Rightarrow> event list" where
  "since w w' = drop (length (trace w)) (trace w')"

subsection \<open>Sample environments\<close>

text \<open>
  A world in which nothing has happened yet, a Connection without a handle, and an
  environment for sample runs: the clock advances by one second per reading from
  \<open>1000\<close> (whole numbers so small that floats subtract them exactly), connects succeed, \<^verbatim>\<open>int("3307")\<close> is \<open>3307\<close>, a statement with positional
  parameters returns one row per parameter and a statement with named parameters the one
  row of their values.
\<close>

definition world0 :: world where
  "world0 = \<lparr>clock_reads = 0, connects = 0, cursors = 0, trace = []\<rparr>"

definition sample_conn :: Connection where
  "sample_conn =
     \<lparr>host = ''localhost'', database = ''shop'', max_idle_time = 8 * 3600,
      db = None, db_args = [], last_use_time = 0\<rparr>"

definition sample_data :: "bound \<Rightarrow> cursor_data" where
  "sample_data b =
     \<lparr>description = Some [''id'', ''name''],
      rows = (case b of
                Positional ps \<Rightarrow> map (\<lambda>v. [v, PyStr ''positional'']) ps
              | Named kw \<Rightarrow> [map snd kw]),
      lastrowid = PyInt 42, rowcount = 2\<rparr>"

definition sample_env :: env where
  "sample_env =
     \<lparr>py_int = (\<lambda>s. if s = ''3307'' then Inr 3307 else Inl (ValueError s)),
      time_time = (\<lambda>n. 1000 + real n),
      float_sub = (\<lambda>a b. a - b),
      Connect = (\<lambda>n. None),
      cursor_execute = (\<lambda>k q b. Inr (sample_data b)),
      cursor_executemany = (\<lambda>k q pss. Inr (sample_data (Positional (concat pss))))\<rparr>"

text \<open>The same with a server that is gone: every statement raises.\<close>

definition gone_env :: env where
  "gone_env =
     sample_env
       \<lparr>cursor_execute := (\<lambda>k q b. Inl (OperationalError ''MySQL server has gone away'')),
        cursor_executemany := (\<lambda>k q pss. Inl (OperationalError ''MySQL server has gone away''))\<rparr>"

text \<open>The same with a statement that violates a constraint.\<close>

definition duplicate_env :: env where
  "duplicate_env =
     sample_env
       \<lparr>cursor_execute := (\<lambda>k q b. Inl (IntegrityError ''Duplicate entry'')),
        cursor_executemany := (\<lambda>k q pss. Inl (IntegrityError ''Duplicate entry''))\<rparr>"



text \<open>The same with a server that refuses the first connect and accepts the later ones.\<close>

definition refusing_env :: env where
  "refusing_env =
     sample_env
       \<lparr>Connect := (\<lambda>n. if n = 0 then Some (DriverError ''Connection refused'') else None)\<rparr>"

subsection \<open>The common shape of the operations\<close>

text \<open>
  The statement operations (\<open>query\<close>, \<open>execute_lastrowid\<close>, \<open>execute_rowcount\<close>) differ
  only in what they read from the cursor, and so do the two batch operations:
  \<open>statement_op\<close> and \<open>batch_op\<close> are their bodies with that reading as a parameter.
  A list of events is \<open>quiet\<close> when it touches no cursor and logs nothing.
\<close>

definition quiet :: "event list \<Rightarrow> bool" where
  "quiet ev = (opened_cursors ev = [] \<and> closed_cursors ev = [] \<and> executed ev = [] \<and> logged ev = [])"

definition statement_op ::
  "env \<Rightarrow> string \<Rightarrow> params \<Rightarrow> kwparams \<Rightarrow> (cursor_data \<Rightarrow> exn + 'a) \<Rightarrow> state \<Rightarrow> (exn + 'a) \<times> state" where
  "statement_op env q ps kw f s =
     (case priv_cursor env s of
        (Inl e, s1) \<Rightarrow> (Inl e, s1)
      | (Inr k, s1) \<Rightarrow>
          finally_close k
            (case priv_execute env k q ps kw s1 of
               (Inl e, s2) \<Rightarrow> (Inl e, s2)
             | (Inr d, s2) \<Rightarrow> (f d, s2)))"

definition batch_op ::
  "env \<Rightarrow> string \<Rightarrow> val list list \<Rightarrow> (cursor_data \<Rightarrow> 'a) \<Rightarrow> state \<Rightarrow> (exn + 'a) \<times> state" where
  "batch_op env q pss f s =
     (case priv_cursor env s of
        (Inl e, s1) \<Rightarrow> (Inl e, s1)
      | (Inr k, s1) \<Rightarrow>
          finally_close k
            (case run_executemany env k q pss s1 of
               (Inl e, s2) \<Rightarrow> (Inl e, s2)
             | (Inr d, s2) \<Rightarrow> (Inr (f d), s2)))"

definition rows_of :: "cursor_data \<Rightarrow> exn + row list" where
  "rows_of d = (case column_names d of Inl e \<Rightarrow> Inl e
                | Inr cols \<Rightarrow> Inr (map (\<lambda>r. Row (zip cols r)) (rows d)))"

text \<open>
  The world an operation leaves, and the statements it sent through
  \<^verbatim>\<open>cursor.execute\<close> between two worlds.
\<close>

definition after :: "'a \<times> state \<Rightarrow> world" where
  "after x = snd (snd x)"

definition gen_after :: "'a \<times> gen \<times> state \<Rightarrow> world" where
  "gen_after x = snd (snd (snd x))"

definition sent :: "world \<Rightarrow> world \<Rightarrow> (nat \<times> string \<times> bound) list" where
  "sent w w' = executed (since w w')"

text \<open>
  Between the worlds before and after an operation the cursor is \<open>released\<close>: the trace
  was only extended, at most one cursor was made, the one numbered \<open>cursors w\<close>, and the
  cursors closed are exactly the cursors made (so that one is closed once, and no other
  cursor is closed at all).
\<close>

definition released :: "world \<Rightarrow> world \<Rightarrow> bool" where
  "released w w' =
     (take (length (trace w)) (trace w') = trace w \<and>
      closed_cursors (since w w') = opened_cursors (since w w') \<and>
      (opened_cursors (since w w') = [] \<or> opened_cursors (since w w') = [cursors w]))"

text \<open>
  The invariant of a generator of \<open>iter\<close> started in the world \<open>w0\<close>: \<open>acq\<close> tells
  whether its cursor has been made; a suspended generator holds that cursor open, a
  finished one has closed what it made.
\<close>

definition gen_inv :: "world \<Rightarrow> bool \<Rightarrow> gen \<Rightarrow> world \<Rightarrow> bool" where
  "gen_inv w0 acq g w =
     (\<exists>ev. trace w = trace w0 @ ev \<and>
        opened_cursors ev = (if acq then [cursors w0] else []) \<and>
        (case g of
           Created q ps kw \<Rightarrow> \<not> acq \<and> ev = [] \<and> cursors w = cursors w0
         | Suspended k cols rs \<Rightarrow> acq \<and> k = cursors w0 \<and> closed_cursors ev = []
         | Finished \<Rightarrow> closed_cursors ev = opened_cursors ev))"

fun started :: "gen \<Rightarrow> bool" where
  "started (Created q ps kw) = False"
| "started g = True"

section \<open>Host strings\<close>

lemma str_split_no_sep: "sep \<notin> set xs \<Longrightarrow> str_split sep xs = [xs]"
  by (induction xs) auto

lemma str_split_at_sep:
  "sep \<notin> set h \<Longrightarrow> str_split sep (h @ sep # p) = h # str_split sep p"
  by (induction h) auto

lemma length_str_split: "length (str_split sep xs) = Suc (count_list xs sep)"
  by (induction xs) (auto split: list.splits)

lemma one_sep_form:
  "count_list xs sep = 1 \<Longrightarrow> \<exists>a b. xs = a @ sep # b \<and> sep \<notin> set a \<and> sep \<notin> set b"
proof (induction xs)
  case Nil
  then show ?case by simp
next
  case (Cons x xs)
  show ?case
  proof (cases "x = sep")
    case True
    with Cons.prems have "sep \<notin> set xs"
      by (simp add: count_list_0_iff)
    with True have "x # xs = [] @ sep # xs \<and> sep \<notin> set [] \<and> sep \<notin> set xs"
      by simp
    then show ?thesis by blast
  next
    case False
    with Cons.prems have "count_list xs sep = 1"
      by simp
    from Cons.IH [OF this] obtain a b where
      "xs = a @ sep # b" "sep \<notin> set a" "sep \<notin> set b" by blast
    with False have "x # xs = (x # a) @ sep # b \<and> sep \<notin> set (x # a) \<and> sep \<notin> set b"
      by simp
    then show ?thesis by blast
  qed
qed

lemma str_split_pair:
  "sep \<notin> set h \<Longrightarrow> sep \<notin> set p \<Longrightarrow> str_split sep (h @ sep # p) = [h, p]"
  by (simp add: str_split_at_sep str_split_no_sep)

lemma base_args_keys:
  "map_of (base_args d u p ct tz) ''host'' = None"
  "map_of (base_args d u p ct tz) ''port'' = None"
  "map_of (base_args d u p ct tz) ''unix_socket'' = None"
  by (simp_all add: base_args_def Let_def AList.update_conv' split: option.splits)

lemma reconnect_db_args: "reconnect env (c, w) = (r, (c', w')) \<Longrightarrow> db_args c' = db_args c"
  by (auto simp: reconnect_def close_def Let_def split: option.splits prod.splits)

lemma init_resolved:
  "resolved (fst (Connection_init env h d u p m ct tz w)) key =
     (case host_args env h (base_args d u p ct tz) of
        Inl e \<Rightarrow> Inl e
      | Inr args \<Rightarrow> Inr (map_of args key))"
  by (auto simp: Connection_init_def resolved_def time_now_def
      split: sum.splits prod.splits dest: reconnect_db_args)

text \<open>
  C5, as stated, fails for a host string of the form \<^verbatim>\<open>h:p\<close> whose \<^verbatim>\<open>h\<close> has colons
  of its own: \<^verbatim>\<open>split(':')\<close> then gives more than two parts, and the constructor takes
  the whole string as host and \<open>3306\<close> as port. So it does for \<^verbatim>\<open>[::1]:3307\<close>.
\<close>

theorem host_resolution_counterexample:
  "''[::1]:3307'' = ''[::1]'' @ '':'' @ ''3307'' \<and>
   py_int sample_env ''3307'' = Inr 3307 \<and>
   resolved (fst (Connection_init sample_env ''[::1]:3307'' ''shop'' None None
       default_max_idle_time default_connect_timeout default_time_zone world0)) ''host''
     = Inr (Some (PyStr ''[::1]:3307'')) \<and>
   resolved (fst (Connection_init sample_env ''[::1]:3307'' ''shop'' None None
       default_max_idle_time default_connect_timeout default_time_zone world0)) ''port''
     = Inr (Some (PyInt 3306))"
  by (simp add: init_resolved host_args_def AList.update_conv' base_args_keys sample_env_def)

text \<open>
  C5, amended. A host string with a \<^verbatim>\<open>/\<close> is stored whole under \<^verbatim>\<open>unix_socket\<close>
  and neither \<^verbatim>\<open>host\<close> nor \<^verbatim>\<open>port\<close> is set. Otherwise a string \<^verbatim>\<open>a:b\<close> with exactly
  one colon gives host \<open>a\<close> and port \<^verbatim>\<open>int(b)\<close> (the constructor raising what \<^verbatim>\<open>int\<close>
  raises), and a string with no colon, or with two or more colons, gives itself as host
  and port \<open>3306\<close>.
\<close>

theorem host_resolution:
  "(CHR ''/'' \<in> set h \<longrightarrow>
      resolved (fst (Connection_init env h d u p m ct tz w)) ''unix_socket'' = Inr (Some (PyStr h)) \<and>
      resolved (fst (Connection_init env h d u p m ct tz w)) ''host'' = Inr None \<and>
      resolved (fst (Connection_init env h d u p m ct tz w)) ''port'' = Inr None) \<and>
   (CHR ''/'' \<notin> set a \<and> CHR ''/'' \<notin> set b \<and> CHR '':'' \<notin> set a \<and> CHR '':'' \<notin> set b \<longrightarrow>
      resolved (fst (Connection_init env (a @ '':'' @ b) d u p m ct tz w)) ''host'' =
        map_sum id (\<lambda>n. Some (PyStr a)) (py_int env b) \<and>
      resolved (fst (Connection_init env (a @ '':'' @ b) d u p m ct tz w)) ''port'' =
        map_sum id (\<lambda>n. Some (PyInt n)) (py_int env b) \<and>
      resolved (fst (Connection_init env (a @ '':'' @ b) d u p m ct tz w)) ''unix_socket'' =
        map_sum id (\<lambda>n. None) (py_int env b)) \<and>
   (CHR ''/'' \<notin> set h \<and> count_list h CHR '':'' \<noteq> 1 \<longrightarrow>
      resolved (fst (Connection_init env h d u p m ct tz w)) ''host'' = Inr (Some (PyStr h)) \<and>
      resolved (fst (Connection_init env h d u p m ct tz w)) ''port'' = Inr (Some (PyInt 3306)) \<and>
      resolved (fst (Connection_init env h d u p m ct tz w)) ''unix_socket'' = Inr None)"
proof (intro conjI impI)
  assume "CHR ''/'' \<in> set h"
  then show
    "resolved (fst (Connection_init env h d u p m ct tz w)) ''unix_socket'' = Inr (Some (PyStr h))"
    "resolved (fst (Connection_init env h d u p m ct tz w)) ''host'' = Inr None"
    "resolved (fst (Connection_init env h d u p m ct tz w)) ''port'' = Inr None"
    by (simp_all add: init_resolved host_args_def AList.update_conv' base_args_keys)
next
  assume "CHR ''/'' \<notin> set a \<and> CHR ''/'' \<notin> set b \<and> CHR '':'' \<notin> set a \<and> CHR '':'' \<notin> set b"
  then show
    "resolved (fst (Connection_init env (a @ '':'' @ b) d u p m ct tz w)) ''host'' =
       map_sum id (\<lambda>n. Some (PyStr a)) (py_int env b)"
    "resolved (fst (Connection_init env (a @ '':'' @ b) d u p m ct tz w)) ''port'' =
       map_sum id (\<lambda>n. Some (PyInt n)) (py_int env b)"
    "resolved (fst (Connection_init env (a @ '':'' @ b) d u p m ct tz w)) ''unix_socket'' =
       map_sum id (\<lambda>n. None) (py_int env b)"
    by (simp_all add: init_resolved host_args_def AList.update_conv' base_args_keys
        str_split_pair split: sum.splits)
next
  assume "CHR ''/'' \<notin> set h \<and> count_list h CHR '':'' \<noteq> 1"
  then show
    "resolved (fst (Connection_init env h d u p m ct tz w)) ''host'' = Inr (Some (PyStr h))"
    "resolved (fst (Connection_init env h d u p m ct tz w)) ''port'' = Inr (Some (PyInt 3306))"
    "resolved (fst (Connection_init env h d u p m ct tz w)) ''unix_socket'' = Inr None"
    by (simp_all add: init_resolved host_args_def AList.update_conv' base_args_keys
        length_str_split)
qed

theorem host_resolution_witness:
  "resolved (fst (Connection_init sample_env ''/var/run/mysqld/mysqld.sock'' ''shop'' None None
       default_max_idle_time default_connect_timeout default_time_zone world0)) ''unix_socket''
     = Inr (Some (PyStr ''/var/run/mysqld/mysqld.sock'')) \<and>
   resolved (fst (Connection_init sample_env ''/var/run/mysqld/mysqld.sock'' ''shop'' None None
       default_max_idle_time default_connect_timeout default_time_zone world0)) ''port''
     = Inr None \<and>
   resolved (fst (Connection_init sample_env (''db.example'' @ '':'' @ ''3307'') ''shop'' None None
       default_max_idle_time default_connect_timeout default_time_zone world0)) ''host''
     = Inr (Some (PyStr ''db.example'')) \<and>
   resolved (fst (Connection_init sample_env (''db.example'' @ '':'' @ ''3307'') ''shop'' None None
       default_max_idle_time default_connect_timeout default_time_zone world0)) ''port''
     = Inr (Some (PyInt 3307)) \<and>
   resolved (fst (Connection_init sample_env ''localhost'' ''shop'' None None
       default_max_idle_time default_connect_timeout default_time_zone world0)) ''host''
     = Inr (Some (PyStr ''localhost'')) \<and>
   resolved (fst (Connection_init sample_env ''localhost'' ''shop'' None None
       default_max_idle_time default_connect_timeout default_time_zone world0)) ''port''
     = Inr (Some (PyInt 3306)) \<and>
   count_list ''::1'' CHR '':'' = 2 \<and>
   resolved (fst (Connection_init sample_env ''::1'' ''shop'' None None
       default_max_idle_time default_connect_timeout default_time_zone world0)) ''host''
     = Inr (Some (PyStr ''::1'')) \<and>
   resolved (fst (Connection_init sample_env ''::1'' ''shop'' None None
       default_max_idle_time default_connect_timeout default_time_zone world0)) ''port''
     = Inr (Some (PyInt 3306))"
  using
    host_resolution [of "''/var/run/mysqld/mysqld.sock''" sample_env "''shop''" None None
      default_max_idle_time default_connect_timeout default_time_zone world0 "''db.example''" "''3307''"]
    host_resolution [of "''localhost''" sample_env "''shop''" None None
      default_max_idle_time default_connect_timeout default_time_zone world0 "''db.example''" "''3307''"]
    host_resolution [of "''::1''" sample_env "''shop''" None None
      default_max_idle_time default_connect_timeout default_time_zone world0 "''db.example''" "''3307''"]
  by (simp add: sample_env_def)

section \<open>The operations, unfolded\<close>

lemma query_op: "query env q ps kw s = statement_op env q ps kw rows_of s"
  by (simp add: query_def statement_op_def rows_of_def split: prod.splits sum.splits)

lemma execute_lastrowid_op:
  "execute_lastrowid env q ps kw s = statement_op env q ps kw (\<lambda>d. Inr (lastrowid d)) s"
  by (simp add: execute_lastrowid_def statement_op_def)

lemma execute_rowcount_op:
  "execute_rowcount env q ps kw s = statement_op env q ps kw (\<lambda>d. Inr (rowcount d)) s"
  by (simp add: execute_rowcount_def statement_op_def)

lemma executemany_lastrowid_op:
  "executemany_lastrowid env q pss s = batch_op env q pss lastrowid s"
  by (simp add: executemany_lastrowid_def batch_op_def)

lemma executemany_rowcount_op:
  "executemany_rowcount env q pss s = batch_op env q pss rowcount s"
  by (simp add: executemany_rowcount_def batch_op_def)

lemma opened_cursors_append [simp]:
  "opened_cursors (xs @ ys) = opened_cursors xs @ opened_cursors ys"
  by (induction xs rule: opened_cursors.induct) auto

lemma closed_cursors_append [simp]:
  "closed_cursors (xs @ ys) = closed_cursors xs @ closed_cursors ys"
  by (induction xs rule: closed_cursors.induct) auto

lemma executed_append [simp]: "executed (xs @ ys) = executed xs @ executed ys"
  by (induction xs rule: executed.induct) auto

lemma logged_append [simp]: "logged (xs @ ys) = logged xs @ logged ys"
  by (induction xs rule: logged.induct) auto

lemma emit_simps [simp]:
  "trace (emit e w) = trace w @ [e]"
  "cursors (emit e w) = cursors w"
  "connects (emit e w) = connects w"
  "clock_reads (emit e w) = clock_reads w"
  by (simp_all add: emit_def)

lemma quiet_simps [simp]:
  "quiet []"
  "quiet (xs @ ys) = (quiet xs \<and> quiet ys)"
  "quiet (ConnectCall n a # es) = quiet es"
  "quiet (SetAutocommit n # es) = quiet es"
  "quiet (HandleClose n # es) = quiet es"
  by (auto simp: quiet_def)

lemma close_facts:
  "close (c, w) = (c', w') \<Longrightarrow>
     c' = c\<lparr>db := None\<rparr> \<and> cursors w' = cursors w \<and> connects w' = connects w \<and> clock_reads w' = clock_reads w
     \<and> trace w' = trace w @ (case db c of None \<Rightarrow> [] | Some h \<Rightarrow> [HandleClose h])"
  by (auto simp: close_def split: option.splits)

lemma reconnect_facts:
  "reconnect env (c, w) = (r, (c', w')) \<Longrightarrow>
     cursors w' = cursors w \<and> connects w' = Suc (connects w) \<and> clock_reads w' = clock_reads w
     \<and> host c' = host c \<and> last_use_time c' = last_use_time c \<and> max_idle_time c' = max_idle_time c
     \<and> db_args c' = db_args c
     \<and> (\<exists>ev. trace w' = trace w @ ev \<and> quiet ev)
     \<and> (case r of Inl e \<Rightarrow> db c' = None \<and> Connect env (connects w) = Some e
         | Inr u \<Rightarrow> db c' = Some (connects w) \<and> Connect env (connects w) = None)"
  by (auto simp: reconnect_def Let_def split: option.splits prod.splits dest!: close_facts)

lemma ensure_connected_facts:
  "priv_ensure_connected env (c, w) = (r, (c', w')) \<Longrightarrow>
     cursors w' = cursors w \<and> host c' = host c \<and> max_idle_time c' = max_idle_time c
     \<and> db_args c' = db_args c
     \<and> (\<exists>ev. trace w' = trace w @ ev \<and> quiet ev)
     \<and> (case r of Inl e \<Rightarrow> db c' = None | Inr u \<Rightarrow> db c' \<noteq> None)"
  by (auto simp: priv_ensure_connected_def touch_def time_now_def
      split: option.splits prod.splits if_splits sum.splits dest!: reconnect_facts)

text \<open>What an operation does once the connection check has passed.\<close>

lemma statement_op_raises:
  "priv_ensure_connected env s = (Inl e, s1) \<Longrightarrow> statement_op env q ps kw f s = (Inl e, s1)"
  by (simp add: statement_op_def priv_cursor_def)

lemma ensure_connected_handle:
  assumes "fst (priv_ensure_connected env (c, w)) = Inr ()"
  shows "\<exists>c1 w1 h ev. priv_ensure_connected env (c, w) = (Inr (), (c1, w1)) \<and> db c1 = Some h \<and>
           cursors w1 = cursors w \<and> host c1 = host c \<and> trace w1 = trace w @ ev \<and> quiet ev"
proof -
  obtain c1 w1 where e: "priv_ensure_connected env (c, w) = (Inr (), (c1, w1))"
    using assms by (metis prod.collapse)
  from ensure_connected_facts [OF e] show ?thesis
    using e by auto
qed

lemma statement_op_runs:
  assumes "priv_ensure_connected env (c, w) = (Inr (), (c1, w1))" and "db c1 = Some h"
  shows "statement_op env q ps kw f (c, w) =
     (let k = cursors w;
          b = bound_of ps kw;
          w2 = emit (CursorExecute k q b) (emit (CursorOpen k (Some h)) (w1\<lparr>cursors := Suc k\<rparr>))
      in case cursor_execute env k q b of
           Inr d \<Rightarrow> (f d, (c1, emit (CursorClose k) w2))
         | Inl e \<Rightarrow>
             if is_OperationalError e then
               (Inl e, (c1\<lparr>db := None\<rparr>,
                  emit (CursorClose k) (emit (HandleClose h)
                    (emit (LogError (''error connecting to MySQL on '' @ host c)) w2))))
             else (Inl e, (c1, emit (CursorClose k) w2)))"
proof -
  from ensure_connected_facts [OF assms(1)] have
    h: "cursors w1 = cursors w" "host c1 = host c" by auto
  show ?thesis
    using assms h
    by (simp add: statement_op_def priv_cursor_def new_cursor_def priv_execute_def Let_def
        finally_close_def cursor_close_def logging_error_def close_def split: sum.splits)
qed

lemma batch_op_raises:
  "priv_ensure_connected env s = (Inl e, s1) \<Longrightarrow> batch_op env q pss f s = (Inl e, s1)"
  by (simp add: batch_op_def priv_cursor_def)

lemma batch_op_runs:
  assumes "priv_ensure_connected env (c, w) = (Inr (), (c1, w1))" and "db c1 = Some h"
  shows "batch_op env q pss f (c, w) =
     (let k = cursors w;
          w2 = emit (CursorExecuteMany k q pss) (emit (CursorOpen k (Some h)) (w1\<lparr>cursors := Suc k\<rparr>))
      in (map_sum id f (cursor_executemany env k q pss), (c1, emit (CursorClose k) w2)))"
proof -
  from ensure_connected_facts [OF assms(1)] have
    h: "cursors w1 = cursors w" "host c1 = host c" by auto
  show ?thesis
    using assms h
    by (simp add: batch_op_def priv_cursor_def new_cursor_def run_executemany_def Let_def
        finally_close_def cursor_close_def split: sum.splits)
qed

lemma since_append [simp]: "trace w' = trace w @ ev \<Longrightarrow> since w w' = ev"
  by (simp add: since_def)

lemma statement_op_result:
  assumes "fst (priv_ensure_connected env (c, w)) = Inr ()"
  shows "fst (statement_op env q ps kw f (c, w)) =
           (case cursor_execute env (cursors w) q (bound_of ps kw) of
              Inl e \<Rightarrow> Inl e | Inr d \<Rightarrow> f d)"
proof -
  from ensure_connected_handle [OF assms] obtain c1 w1 h where
    e: "priv_ensure_connected env (c, w) = (Inr (), (c1, w1))" "db c1 = Some h" by blast
  show ?thesis
    by (simp add: statement_op_runs [OF e] Let_def split: sum.splits)
qed

lemma statement_op_sent:
  assumes "fst (priv_ensure_connected env (c, w)) = Inr ()"
  shows "sent w (after (statement_op env q ps kw f (c, w))) = [(cursors w, q, bound_of ps kw)]"
proof -
  from ensure_connected_handle [OF assms] obtain c1 w1 h ev where
    e: "priv_ensure_connected env (c, w) = (Inr (), (c1, w1))" "db c1 = Some h"
    and t: "trace w1 = trace w @ ev" "quiet ev" by blast
  from t show ?thesis
    by (simp add: statement_op_runs [OF e] Let_def sent_def after_def quiet_def split: sum.splits)
qed

lemma get_state: "snd (get env q ps kw s) = snd (query env q ps kw s)"
  by (simp add: get_def split: prod.splits sum.splits)

lemma get_after: "after (get env q ps kw s) = after (query env q ps kw s)"
  by (simp add: after_def get_state)

lemma sample_connected:
  "fst (priv_ensure_connected sample_env (sample_conn, world0)) = Inr ()"
  by (simp add: priv_ensure_connected_def sample_conn_def world0_def sample_env_def
      reconnect_def close_def Let_def touch_def time_now_def)

section \<open>The single-row lookup\<close>

text \<open>
  C3. When the connection check passes and the statement yields a result set (a
  description and rows), \<open>get\<close> returns \<^verbatim>\<open>None\<close> for no row, the row for exactly one
  row, and raises for two or more rows. What the specification calls
  \<^verbatim>\<open>MultipleRowsError\<close> is the plain
  \<^verbatim>\<open>Exception('Multiple rows returned for Database.get() query')\<close> of the source.
\<close>

theorem get_by_row_count:
  assumes "fst (priv_ensure_connected env (c, w)) = Inr ()"
    and "cursor_execute env (cursors w) q (bound_of ps kw) = Inr d"
    and "description d = Some cols"
  shows "(rows d = [] \<longrightarrow> fst (get env q ps kw (c, w)) = Inr None) \<and>
         (rows d = [r] \<longrightarrow> fst (get env q ps kw (c, w)) = Inr (Some (Row (zip cols r)))) \<and>
         (2 \<le> length (rows d) \<longrightarrow>
            fst (get env q ps kw (c, w)) =
              Inl (PyException ''Multiple rows returned for Database.get() query''))"
proof -
  have "fst (query env q ps kw (c, w)) = Inr (map (\<lambda>r. Row (zip cols r)) (rows d))"
    using statement_op_result [OF assms(1), of q ps kw rows_of] assms(2,3)
    by (simp add: query_op rows_of_def column_names_def)
  then show ?thesis
    by (cases "query env q ps kw (c, w)") (auto simp: get_def)
qed

theorem get_by_row_count_witness:
  "fst (priv_ensure_connected sample_env (sample_conn, world0)) = Inr () \<and>
   fst (get sample_env ''SELECT id, name FROM t WHERE id IN ()'' [] [] (sample_conn, world0)) = Inr None \<and>
   fst (get sample_env ''SELECT id, name FROM t WHERE id = %s'' [PyInt 7] [] (sample_conn, world0))
     = Inr (Some [(''id'', PyInt 7), (''name'', PyStr ''positional'')]) \<and>
   fst (get sample_env ''SELECT id, name FROM t WHERE id IN (%s, %s)'' [PyInt 7, PyInt 8] []
          (sample_conn, world0))
     = Inl (PyException ''Multiple rows returned for Database.get() query'')"
  using sample_connected
    get_by_row_count [OF sample_connected, where q = "''SELECT id, name FROM t WHERE id IN ()''"
      and ps = "[]" and kw = "[]" and d = "sample_data (Positional [])" and cols = "[''id'', ''name'']"]
    get_by_row_count [OF sample_connected, where q = "''SELECT id, name FROM t WHERE id = %s''"
      and ps = "[PyInt 7]" and kw = "[]" and d = "sample_data (Positional [PyInt 7])"
      and cols = "[''id'', ''name'']" and r = "[PyInt 7, PyStr ''positional'']"]
    get_by_row_count [OF sample_connected, where q = "''SELECT id, name FROM t WHERE id IN (%s, %s)''"
      and ps = "[PyInt 7, PyInt 8]" and kw = "[]" and d = "sample_data (Positional [PyInt 7, PyInt 8])"
      and cols = "[''id'', ''name'']"]
  by (simp add: sample_env_def sample_data_def bound_of_def Row_def)

section \<open>What the execute family returns\<close>

text \<open>
  C6. When the connection check passes and the driver runs the statement, \<open>execute\<close>,
  \<open>insert\<close> and \<open>execute_lastrowid\<close> return the cursor's \<^verbatim>\<open>lastrowid\<close> as it is,
  \<open>execute_rowcount\<close> and \<open>update\<close> its \<^verbatim>\<open>rowcount\<close>; the batch variants and their
  aliases return the same two values of the cursor after \<^verbatim>\<open>executemany\<close>.
\<close>

theorem execute_family_returns:
  assumes "fst (priv_ensure_connected env (c, w)) = Inr ()"
  shows "(cursor_execute env (cursors w) q (bound_of ps kw) = Inr d \<longrightarrow>
           fst (execute env q ps kw (c, w)) = Inr (lastrowid d) \<and>
           fst (insert_alias env q ps kw (c, w)) = Inr (lastrowid d) \<and>
           fst (execute_lastrowid env q ps kw (c, w)) = Inr (lastrowid d) \<and>
           fst (execute_rowcount env q ps kw (c, w)) = Inr (rowcount d) \<and>
           fst (update env q ps kw (c, w)) = Inr (rowcount d)) \<and>
         (cursor_executemany env (cursors w) q pss = Inr d \<longrightarrow>
           fst (executemany env q pss (c, w)) = Inr (lastrowid d) \<and>
           fst (executemany_lastrowid env q pss (c, w)) = Inr (lastrowid d) \<and>
           fst (insertmany env q pss (c, w)) = Inr (lastrowid d) \<and>
           fst (executemany_rowcount env q pss (c, w)) = Inr (rowcount d) \<and>
           fst (updatemany env q pss (c, w)) = Inr (rowcount d))"
proof -
  from ensure_connected_handle [OF assms] obtain c1 w1 h where
    e: "priv_ensure_connected env (c, w) = (Inr (), (c1, w1))" "db c1 = Some h" by blast
  show ?thesis
    by (simp add: execute_def insert_alias_def update_def executemany_def insertmany_def
        updatemany_def execute_lastrowid_op execute_rowcount_op executemany_lastrowid_op
        executemany_rowcount_op statement_op_runs [OF e] batch_op_runs [OF e] Let_def)
qed

theorem execute_family_returns_witness:
  "fst (priv_ensure_connected sample_env (sample_conn, world0)) = Inr () \<and>
   fst (execute sample_env ''INSERT INTO t VALUES (%s)'' [PyInt 7] [] (sample_conn, world0)) = Inr (PyInt 42) \<and>
   fst (insert_alias sample_env ''INSERT INTO t VALUES (%s)'' [PyInt 7] [] (sample_conn, world0)) = Inr (PyInt 42) \<and>
   fst (update sample_env ''INSERT INTO t VALUES (%s)'' [PyInt 7] [] (sample_conn, world0)) = Inr 2 \<and>
   fst (insertmany sample_env ''INSERT INTO t VALUES (%s)'' [[PyInt 7], [PyInt 8]] (sample_conn, world0)) = Inr (PyInt 42) \<and>
   fst (updatemany sample_env ''INSERT INTO t VALUES (%s)'' [[PyInt 7], [PyInt 8]] (sample_conn, world0)) = Inr 2"
  using sample_connected
    execute_family_returns [OF sample_connected, where q = "''INSERT INTO t VALUES (%s)''" and ps = "[PyInt 7]"
      and kw = "[]" and d = "sample_data (Positional [PyInt 7])"
      and pss = "[[PyInt 7], [PyInt 8]]"]
    execute_family_returns [OF sample_connected, where q = "''INSERT INTO t VALUES (%s)''" and ps = "[PyInt 7]"
      and kw = "[]" and d = "sample_data (Positional [PyInt 7, PyInt 8])"
      and pss = "[[PyInt 7], [PyInt 8]]"]
  by (simp add: sample_env_def sample_data_def bound_of_def world0_def)

section \<open>The first step of the generator\<close>


lemma gen_first_runs:
  assumes "priv_ensure_connected env (c, w) = (Inr (), (c1, w1))" and "db c1 = Some h"
  shows "gen_next env (Created q ps kw) (c, w) =
     (let k = cursors w;
          b = bound_of ps kw;
          w2 = emit (CursorExecute k q b) (emit (CursorOpen k (Some h)) (w1\<lparr>cursors := Suc k\<rparr>))
      in case cursor_execute env k q b of
           Inr d \<Rightarrow>
             (case column_names d of
                Inl e \<Rightarrow> (Inl e, Finished, (c1, emit (CursorClose k) w2))
              | Inr cols \<Rightarrow> iter_loop k cols (rows d) (c1, w2))
         | Inl e \<Rightarrow>
             if is_OperationalError e then
               (Inl e, Finished, (c1\<lparr>db := None\<rparr>,
                  emit (CursorClose k) (emit (HandleClose h)
                    (emit (LogError (''error connecting to MySQL on '' @ host c)) w2))))
             else (Inl e, Finished, (c1, emit (CursorClose k) w2)))"
proof -
  from ensure_connected_facts [OF assms(1)] have
    h: "cursors w1 = cursors w" "host c1 = host c" by auto
  show ?thesis
    using assms h
    by (simp add: new_cursor_def priv_execute_def Let_def
        cursor_close_def logging_error_def close_def split: sum.splits)
qed

lemma gen_first_sent:
  assumes "fst (priv_ensure_connected env (c, w)) = Inr ()"
  shows "sent w (gen_after (gen_next env (iter q ps kw) (c, w))) = [(cursors w, q, bound_of ps kw)]"
proof -
  from ensure_connected_handle [OF assms] obtain c1 w1 h ev where
    e: "priv_ensure_connected env (c, w) = (Inr (), (c1, w1))" "db c1 = Some h"
    and t: "trace w1 = trace w @ ev" "quiet ev" by blast
  from t show ?thesis
    by (simp add: iter_def gen_first_runs [OF e] Let_def sent_def gen_after_def quiet_def
        iter_loop_def cursor_close_def del: gen_next.simps split: sum.splits list.splits)
qed

lemma named_ignores_positional:
  "kw \<noteq> [] \<Longrightarrow> priv_execute env k q ps kw s = priv_execute env k q ps' kw s"
  by (simp add: priv_execute_def bound_of_def)

section \<open>Parameter binding\<close>

text \<open>
  C7. In every operation that takes both kinds of parameters (\<open>query\<close>, \<open>get\<close>, the
  \<open>execute\<close> family with its aliases, and the first step of \<open>iter\<close>), when the
  connection check passes: with named parameters, the one statement sent to the driver
  carries them and the operation does the same whatever the positional parameters are;
  without named parameters, the statement carries the positional ones.
\<close>

theorem named_parameters_win:
  assumes "fst (priv_ensure_connected env (c, w)) = Inr ()"
  shows
    "(kw \<noteq> [] \<longrightarrow>
        sent w (after (query env q ps kw (c, w))) = [(cursors w, q, Named kw)] \<and>
        query env q ps kw (c, w) = query env q ps' kw (c, w) \<and>
        sent w (after (get env q ps kw (c, w))) = [(cursors w, q, Named kw)] \<and>
        get env q ps kw (c, w) = get env q ps' kw (c, w) \<and>
        sent w (after (execute env q ps kw (c, w))) = [(cursors w, q, Named kw)] \<and>
        execute env q ps kw (c, w) = execute env q ps' kw (c, w) \<and>
        sent w (after (execute_lastrowid env q ps kw (c, w))) = [(cursors w, q, Named kw)] \<and>
        execute_lastrowid env q ps kw (c, w) = execute_lastrowid env q ps' kw (c, w) \<and>
        sent w (after (insert_alias env q ps kw (c, w))) = [(cursors w, q, Named kw)] \<and>
        insert_alias env q ps kw (c, w) = insert_alias env q ps' kw (c, w) \<and>
        sent w (after (execute_rowcount env q ps kw (c, w))) = [(cursors w, q, Named kw)] \<and>
        execute_rowcount env q ps kw (c, w) = execute_rowcount env q ps' kw (c, w) \<and>
        sent w (after (update env q ps kw (c, w))) = [(cursors w, q, Named kw)] \<and>
        update env q ps kw (c, w) = update env q ps' kw (c, w) \<and>
        sent w (gen_after (gen_next env (iter q ps kw) (c, w))) = [(cursors w, q, Named kw)] \<and>
        gen_next env (iter q ps kw) (c, w) = gen_next env (iter q ps' kw) (c, w)) \<and>
     (kw = [] \<longrightarrow>
        sent w (after (query env q ps kw (c, w))) = [(cursors w, q, Positional ps)] \<and>
        sent w (after (get env q ps kw (c, w))) = [(cursors w, q, Positional ps)] \<and>
        sent w (after (execute env q ps kw (c, w))) = [(cursors w, q, Positional ps)] \<and>
        sent w (after (execute_lastrowid env q ps kw (c, w))) = [(cursors w, q, Positional ps)] \<and>
        sent w (after (insert_alias env q ps kw (c, w))) = [(cursors w, q, Positional ps)] \<and>
        sent w (after (execute_rowcount env q ps kw (c, w))) = [(cursors w, q, Positional ps)] \<and>
        sent w (after (update env q ps kw (c, w))) = [(cursors w, q, Positional ps)] \<and>
        sent w (gen_after (gen_next env (iter q ps kw) (c, w))) = [(cursors w, q, Positional ps)])"
proof -
  note s = get_after query_op execute_def insert_alias_def update_def execute_lastrowid_op
    execute_rowcount_op statement_op_sent [OF assms] gen_first_sent [OF assms]
  have same: "kw \<noteq> [] \<Longrightarrow> statement_op env q ps kw f (c, w) = statement_op env q ps' kw f (c, w)" for f :: "cursor_data \<Rightarrow> exn + 'b"
    by (simp add: statement_op_def named_ignores_positional [of kw env _ q ps _ ps']
        split: prod.splits sum.splits)
  have same_get: "kw \<noteq> [] \<Longrightarrow> get env q ps kw (c, w) = get env q ps' kw (c, w)"
    using same [of rows_of] by (simp add: get_def query_op)
  have same_gen: "kw \<noteq> [] \<Longrightarrow> gen_next env (iter q ps kw) (c, w) = gen_next env (iter q ps' kw) (c, w)"
    by (simp add: iter_def named_ignores_positional [of kw env _ q ps _ ps']
        split: prod.splits sum.splits)
  show ?thesis
    by (intro conjI impI) (simp_all add: s bound_of_def same same_get same_gen del: gen_next.simps)
qed

theorem named_parameters_win_witness:
  "fst (priv_ensure_connected sample_env (sample_conn, world0)) = Inr () \<and>
   [(''id'', PyInt 7)] \<noteq> [] \<and>
   sent world0 (after (query sample_env ''SELECT * FROM t WHERE id = %(id)s'' [PyInt 1, PyInt 2]
       [(''id'', PyInt 7)] (sample_conn, world0)))
     = [(0, ''SELECT * FROM t WHERE id = %(id)s'', Named [(''id'', PyInt 7)])] \<and>
   query sample_env ''SELECT * FROM t WHERE id = %(id)s'' [PyInt 1, PyInt 2] [(''id'', PyInt 7)]
       (sample_conn, world0)
     = query sample_env ''SELECT * FROM t WHERE id = %(id)s'' [] [(''id'', PyInt 7)]
       (sample_conn, world0) \<and>
   sent world0 (after (execute sample_env ''DELETE FROM t WHERE id = %s'' [PyInt 1] []
       (sample_conn, world0)))
     = [(0, ''DELETE FROM t WHERE id = %s'', Positional [PyInt 1])]"
proof -
  have c0: "cursors world0 = 0"
    by (simp add: world0_def)
  have ne: "[(''id'', PyInt 7)] \<noteq> ([] :: kwparams)"
    by simp
  show ?thesis
    using sample_connected ne
      named_parameters_win [OF sample_connected, where q = "''SELECT * FROM t WHERE id = %(id)s''"
        and ps = "[PyInt 1, PyInt 2]" and kw = "[(''id'', PyInt 7)]" and ps' = "[]"]
      named_parameters_win [OF sample_connected, where q = "''DELETE FROM t WHERE id = %s''"
        and ps = "[PyInt 1]" and kw = "[]"]
    unfolding c0 by blast
qed

text \<open>
  C10. An empty dict of named parameters is what a call without named parameters
  passes: in every such operation the statement then carries the positional tuple, and
  the statement carries the named parameters exactly when their dict is not empty.
\<close>

theorem empty_named_falls_back:
  assumes "fst (priv_ensure_connected env (c, w)) = Inr ()"
  shows
    "sent w (after (query env q ps [] (c, w))) = [(cursors w, q, Positional ps)] \<and>
     sent w (after (get env q ps [] (c, w))) = [(cursors w, q, Positional ps)] \<and>
     sent w (after (execute env q ps [] (c, w))) = [(cursors w, q, Positional ps)] \<and>
     sent w (after (execute_lastrowid env q ps [] (c, w))) = [(cursors w, q, Positional ps)] \<and>
     sent w (after (insert_alias env q ps [] (c, w))) = [(cursors w, q, Positional ps)] \<and>
     sent w (after (execute_rowcount env q ps [] (c, w))) = [(cursors w, q, Positional ps)] \<and>
     sent w (after (update env q ps [] (c, w))) = [(cursors w, q, Positional ps)] \<and>
     sent w (gen_after (gen_next env (iter q ps []) (c, w))) = [(cursors w, q, Positional ps)] \<and>
     (sent w (after (query env q ps kw (c, w))) = [(cursors w, q, Named kw)]) = (kw \<noteq> []) \<and>
     (sent w (after (get env q ps kw (c, w))) = [(cursors w, q, Named kw)]) = (kw \<noteq> []) \<and>
     (sent w (after (execute env q ps kw (c, w))) = [(cursors w, q, Named kw)]) = (kw \<noteq> []) \<and>
     (sent w (after (execute_lastrowid env q ps kw (c, w))) = [(cursors w, q, Named kw)])
        = (kw \<noteq> []) \<and>
     (sent w (after (insert_alias env q ps kw (c, w))) = [(cursors w, q, Named kw)])
        = (kw \<noteq> []) \<and>
     (sent w (after (execute_rowcount env q ps kw (c, w))) = [(cursors w, q, Named kw)])
        = (kw \<noteq> []) \<and>
     (sent w (after (update env q ps kw (c, w))) = [(cursors w, q, Named kw)]) = (kw \<noteq> []) \<and>
     (sent w (gen_after (gen_next env (iter q ps kw) (c, w))) = [(cursors w, q, Named kw)])
        = (kw \<noteq> [])"
  by (intro conjI)
    (simp_all add: get_after query_op execute_def insert_alias_def update_def
      execute_lastrowid_op execute_rowcount_op statement_op_sent [OF assms]
      gen_first_sent [OF assms] bound_of_def del: gen_next.simps)

theorem empty_named_falls_back_witness:
  "fst (priv_ensure_connected sample_env (sample_conn, world0)) = Inr () \<and>
   sent world0 (after (query sample_env ''SELECT * FROM t WHERE id = %s'' [PyInt 1] []
       (sample_conn, world0)))
     = [(0, ''SELECT * FROM t WHERE id = %s'', Positional [PyInt 1])] \<and>
   sent world0 (after (update sample_env ''UPDATE t SET a = 0'' [] [] (sample_conn, world0)))
     = [(0, ''UPDATE t SET a = 0'', Positional [])]"
proof -
  have c0: "cursors world0 = 0"
    by (simp add: world0_def)
  show ?thesis
    using sample_connected
      empty_named_falls_back [OF sample_connected, where q = "''SELECT * FROM t WHERE id = %s''"
        and ps = "[PyInt 1]"]
      empty_named_falls_back [OF sample_connected, where q = "''UPDATE t SET a = 0''"
        and ps = "[]"]
    unfolding c0 by blast
qed

section \<open>Row\<close>

lemma map_of_foldl_update:
  "map_of (foldl (\<lambda>d (k, v). AList.update k v d) acc pairs) = map_of acc ++ map_of (rev pairs)"
proof (induction pairs arbitrary: acc)
  case Nil
  then show ?case by simp
next
  case (Cons p pairs)
  obtain k v where p: "p = (k, v)" by (cases p)
  show ?case
    using Cons.IH [of "AList.update k v acc"]
    by (auto simp: p AList.update_conv' map_add_def fun_eq_iff split: option.splits)
qed

lemma map_of_Row: "map_of (Row pairs) = map_of (rev pairs)"
  by (simp add: Row_def map_of_foldl_update)

lemma Row_present: "name \<in> fst ` set pairs \<Longrightarrow> \<exists>v. map_of (Row pairs) name = Some v"
  by (metis map_of_Row map_of_eq_None_iff not_Some_eq set_rev)

lemma Row_absent: "name \<notin> fst ` set pairs \<Longrightarrow> map_of (Row pairs) name = None"
  by (simp add: map_of_Row map_of_eq_None_iff)

text \<open>
  C8, as stated, fails for a column called like a method of dict: the normal lookup
  finds the method before \<^verbatim>\<open>__getattr__\<close> is asked. A Row with the column
  \<^verbatim>\<open>items\<close> gives the column's value under the key and the bound method as
  attribute; and the absent name \<^verbatim>\<open>keys\<close> raises nothing.
\<close>

theorem row_attribute_counterexample:
  "getitem (Row [(''items'', PyInt 3)]) ''items'' = Inr (PyInt 3) \<and>
   attribute (\<lambda>name. False) (Row [(''items'', PyInt 3)]) ''items'' = Inr (BoundMethod ''items'') \<and>
   ''keys'' \<notin> fst ` set [(''items'', PyInt 3)] \<and>
   attribute (\<lambda>name. False) (Row [(''items'', PyInt 3)]) ''keys'' = Inr (BoundMethod ''keys'')"
  by (simp add: getitem_def Row_def attribute_def normal_lookup_def dict_methods_def)

text \<open>
  C8, amended. For a name that the normal attribute lookup does not find on a dict
  object: if the Row has the column, \<^verbatim>\<open>row[name]\<close> and \<^verbatim>\<open>row.name\<close> are the same
  value; if it has not, \<^verbatim>\<open>row[name]\<close> raises \<^verbatim>\<open>KeyError\<close> and \<^verbatim>\<open>row.name\<close> raises
  \<^verbatim>\<open>AttributeError(name)\<close>, the specification's \<^verbatim>\<open>FieldNotFound\<close>. For a name that the
  normal lookup finds, \<^verbatim>\<open>row.name\<close> is that attribute of the dict, column or not.
\<close>

theorem row_attribute_access:
  "(normal_lookup special name \<longrightarrow> attribute special (Row pairs) name = Inr (BoundMethod name)) \<and>
   (\<not> normal_lookup special name \<and> name \<in> fst ` set pairs \<longrightarrow>
      (\<exists>v. getitem (Row pairs) name = Inr v \<and> attribute special (Row pairs) name = Inr (Column v))) \<and>
   (\<not> normal_lookup special name \<and> name \<notin> fst ` set pairs \<longrightarrow>
      getitem (Row pairs) name = Inl (KeyError name) \<and>
      attribute special (Row pairs) name = Inl (AttributeError name))"
proof (intro conjI impI)
  assume "normal_lookup special name"
  then show "attribute special (Row pairs) name = Inr (BoundMethod name)"
    by (simp add: attribute_def)
next
  assume a: "\<not> normal_lookup special name \<and> name \<in> fst ` set pairs"
  then obtain v where "map_of (Row pairs) name = Some v"
    using Row_present by blast
  with a show "\<exists>v. getitem (Row pairs) name = Inr v \<and> attribute special (Row pairs) name = Inr (Column v)"
    by (simp add: getitem_def attribute_def Row_getattr_def)
next
  assume a: "\<not> normal_lookup special name \<and> name \<notin> fst ` set pairs"
  then have n: "map_of (Row pairs) name = None"
    using Row_absent by blast
  from a n show "getitem (Row pairs) name = Inl (KeyError name)"
    by (simp add: getitem_def)
  from a n show "attribute special (Row pairs) name = Inl (AttributeError name)"
    by (simp add: getitem_def attribute_def Row_getattr_def)
qed

theorem row_attribute_access_witness:
  "\<not> normal_lookup (\<lambda>name. False) ''id'' \<and> ''id'' \<in> fst ` set [(''id'', PyInt 1), (''name'', PyStr ''a'')] \<and>
   getitem (Row [(''id'', PyInt 1), (''name'', PyStr ''a'')]) ''id'' = Inr (PyInt 1) \<and>
   attribute (\<lambda>name. False) (Row [(''id'', PyInt 1), (''name'', PyStr ''a'')]) ''id'' = Inr (Column (PyInt 1)) \<and>
   \<not> normal_lookup (\<lambda>name. False) ''nme'' \<and> ''nme'' \<notin> fst ` set [(''id'', PyInt 1), (''name'', PyStr ''a'')] \<and>
   attribute (\<lambda>name. False) (Row [(''id'', PyInt 1), (''name'', PyStr ''a'')]) ''nme'' = Inl (AttributeError ''nme'') \<and>
   normal_lookup (\<lambda>name. False) ''items'' \<and>
   attribute (\<lambda>name. False) (Row [(''id'', PyInt 1), (''name'', PyStr ''a'')]) ''items'' = Inr (BoundMethod ''items'')"
proof -
  have a: "\<not> normal_lookup (\<lambda>name. False) ''id''" "\<not> normal_lookup (\<lambda>name. False) ''nme''"
    "normal_lookup (\<lambda>name. False) ''items''"
    by (simp_all add: normal_lookup_def dict_methods_def)
  have b: "''id'' \<in> fst ` set [(''id'', PyInt 1), (''name'', PyStr ''a'')]"
    "''nme'' \<notin> fst ` set [(''id'', PyInt 1), (''name'', PyStr ''a'')]"
    by simp_all
  have g: "getitem (Row [(''id'', PyInt 1), (''name'', PyStr ''a'')]) ''id'' = Inr (PyInt 1)"
    by (simp add: getitem_def Row_def)
  show ?thesis
    using a b g
      row_attribute_access [of "\<lambda>name. False" "''id''" "[(''id'', PyInt 1), (''name'', PyStr ''a'')]"]
      row_attribute_access [of "\<lambda>name. False" "''nme''" "[(''id'', PyInt 1), (''name'', PyStr ''a'')]"]
      row_attribute_access [of "\<lambda>name. False" "''items''" "[(''id'', PyInt 1), (''name'', PyStr ''a'')]"]
    by auto
qed

section \<open>The connection check\<close>



text \<open>
  Five sample runs of the check: no handle; a handle used a moment ago; a handle idle for
  longer than \<open>max_idle_time\<close>; no handle and a refused connect; a handle whose float
  idle time equals \<open>max_idle_time\<close>.
\<close>

lemmas run_defs = priv_ensure_connected_def sample_conn_def world0_def sample_env_def
  refusing_env_def reconnect_def close_def Let_def touch_def time_now_def emit_def after_def

lemma run_absent: "priv_ensure_connected sample_env (sample_conn, world0) =
      (Inr (), sample_conn\<lparr>db := Some 0, last_use_time := 1000\<rparr>,
       \<lparr>clock_reads = 1, connects = 1, cursors = 0,
        trace = [ConnectCall 0 [], SetAutocommit 0]\<rparr>)"
    by (simp add: run_defs)






section \<open>Failed connects\<close>









section \<open>Operational errors\<close>

text \<open>
  A statement operation that meets an \<^verbatim>\<open>OperationalError\<close> re-raises it, leaves the
  Connection without a handle and logs once; a batch operation that meets any exception
  re-raises it, keeps the handle and logs nothing.
\<close>

lemma statement_op_operational_error:
  assumes "fst (priv_ensure_connected env (c, w)) = Inr ()"
    and "cursor_execute env (cursors w) q (bound_of ps kw) = Inl (OperationalError msg)"
  shows "fst (statement_op env q ps kw f (c, w)) = Inl (OperationalError msg) \<and>
         db (fst (snd (statement_op env q ps kw f (c, w)))) = None \<and>
         logged (since w (after (statement_op env q ps kw f (c, w))))
           = [''error connecting to MySQL on '' @ host c]"
proof -
  from ensure_connected_handle [OF assms(1)] obtain c1 w1 h ev where
    e: "priv_ensure_connected env (c, w) = (Inr (), (c1, w1))" "db c1 = Some h"
    and t: "trace w1 = trace w @ ev" "quiet ev" by blast
  from t assms(2) show ?thesis
    by (simp add: statement_op_runs [OF e] Let_def after_def quiet_def)
qed

lemma batch_op_error:
  assumes "fst (priv_ensure_connected env (c, w)) = Inr ()"
    and "cursor_executemany env (cursors w) q pss = Inl x"
  shows "fst (batch_op env q pss f (c, w)) = Inl x \<and>
         db (fst (snd (batch_op env q pss f (c, w)))) \<noteq> None \<and>
         logged (since w (after (batch_op env q pss f (c, w)))) = []"
proof -
  from ensure_connected_handle [OF assms(1)] obtain c1 w1 h ev where
    e: "priv_ensure_connected env (c, w) = (Inr (), (c1, w1))" "db c1 = Some h"
    and t: "trace w1 = trace w @ ev" "quiet ev" by blast
  from t assms(2) e(2) show ?thesis
    by (simp add: batch_op_runs [OF e] Let_def after_def quiet_def)
qed

lemma gone_connected: "fst (priv_ensure_connected gone_env (sample_conn, world0)) = Inr ()"
  by (simp add: run_defs gone_env_def)

text \<open>
  C2 at a failing input. The server is gone and the Connection connects on first use.
  \<open>executemany_rowcount\<close> re-raises the \<^verbatim>\<open>OperationalError\<close> with the handle still in
  place and nothing logged, where C2 has the handle closed and the failure logged;
  \<open>execute_rowcount\<close>, which goes through \<^verbatim>\<open>_execute\<close>, closes the handle and logs.
\<close>

theorem batch_operational_error_keeps_handle:
  "fst (executemany_rowcount gone_env ''UPDATE t SET a = %s'' [[PyInt 1], [PyInt 2]]
          (sample_conn, world0))
     = Inl (OperationalError ''MySQL server has gone away'') \<and>
   db (fst (snd (executemany_rowcount gone_env ''UPDATE t SET a = %s'' [[PyInt 1], [PyInt 2]]
          (sample_conn, world0)))) = Some 0 \<and>
   logged (since world0 (after (executemany_rowcount gone_env ''UPDATE t SET a = %s''
          [[PyInt 1], [PyInt 2]] (sample_conn, world0)))) = [] \<and>
   fst (execute_rowcount gone_env ''UPDATE t SET a = %s'' [PyInt 1] [] (sample_conn, world0))
     = Inl (OperationalError ''MySQL server has gone away'') \<and>
   db (fst (snd (execute_rowcount gone_env ''UPDATE t SET a = %s'' [PyInt 1] []
          (sample_conn, world0)))) = None \<and>
   logged (since world0 (after (execute_rowcount gone_env ''UPDATE t SET a = %s'' [PyInt 1] []
          (sample_conn, world0)))) = [''error connecting to MySQL on localhost'']"
proof -
  have e: "priv_ensure_connected gone_env (sample_conn, world0) =
      (Inr (), sample_conn\<lparr>db := Some 0, last_use_time := 1000\<rparr>,
       \<lparr>clock_reads = 1, connects = 1, cursors = 0,
        trace = [ConnectCall 0 [], SetAutocommit 0]\<rparr>)"
    by (simp add: run_defs gone_env_def)
  have h: "db (sample_conn\<lparr>db := Some 0, last_use_time := 1000\<rparr>) = Some 0"
    by simp
  have g: "cursor_execute gone_env = (\<lambda>k q b. Inl (OperationalError ''MySQL server has gone away''))"
    "cursor_executemany gone_env = (\<lambda>k q pss. Inl (OperationalError ''MySQL server has gone away''))"
    by (simp_all add: gone_env_def)
  have s: "host sample_conn = ''localhost''" "trace world0 = []" "cursors world0 = 0"
    by (simp_all add: sample_conn_def world0_def)
  show ?thesis
    by (simp add: executemany_rowcount_op execute_rowcount_op batch_op_runs [OF e h]
        statement_op_runs [OF e h] g s Let_def after_def since_def)
qed

section \<open>Cursors are closed\<close>

lemma releasedI:
  assumes "trace w' = trace w @ ev" and "closed_cursors ev = opened_cursors ev"
    and "opened_cursors ev = [] \<or> opened_cursors ev = [cursors w]"
  shows "released w w'"
  using assms by (simp add: released_def)

lemma statement_op_released:
  "released w (after (statement_op env q ps kw f (c, w))) \<and>
   (fst (priv_ensure_connected env (c, w)) = Inr () \<longrightarrow>
      closed_cursors (since w (after (statement_op env q ps kw f (c, w)))) = [cursors w])"
proof (cases "priv_ensure_connected env (c, w)")
  case (fields r c1 w1)
  from ensure_connected_facts [OF fields] obtain ev where
    t: "trace w1 = trace w @ ev" "quiet ev" by blast
  show ?thesis
  proof (cases r)
    case (Inl e)
    with fields t show ?thesis
      by (simp add: statement_op_raises after_def released_def quiet_def)
  next
    case (Inr u)
    with fields have e: "priv_ensure_connected env (c, w) = (Inr (), (c1, w1))"
      by simp
    from ensure_connected_facts [OF e] obtain h where h: "db c1 = Some h"
      by auto
    from t show ?thesis
      by (simp add: statement_op_runs [OF e h] after_def released_def quiet_def Let_def
          split: sum.splits)
  qed
qed

lemma batch_op_released:
  "released w (after (batch_op env q pss f (c, w))) \<and>
   (fst (priv_ensure_connected env (c, w)) = Inr () \<longrightarrow>
      closed_cursors (since w (after (batch_op env q pss f (c, w)))) = [cursors w])"
proof (cases "priv_ensure_connected env (c, w)")
  case (fields r c1 w1)
  from ensure_connected_facts [OF fields] obtain ev where
    t: "trace w1 = trace w @ ev" "quiet ev" by blast
  show ?thesis
  proof (cases r)
    case (Inl e)
    with fields t show ?thesis
      by (simp add: batch_op_raises after_def released_def quiet_def)
  next
    case (Inr u)
    with fields have e: "priv_ensure_connected env (c, w) = (Inr (), (c1, w1))"
      by simp
    from ensure_connected_facts [OF e] obtain h where h: "db c1 = Some h"
      by auto
    from t show ?thesis
      by (simp add: batch_op_runs [OF e h] after_def released_def quiet_def Let_def)
  qed
qed

subsection \<open>The generator\<close>

lemma iter_loop_inv:
  assumes "gen_inv w0 True (Suspended k cols rs) w"
    and "iter_loop k cols rs (c, w) = (r, g', (c', w'))"
  shows "gen_inv w0 True g' w' \<and> started g'"
  using assms
  by (cases rs) (auto simp: iter_loop_def gen_inv_def cursor_close_def)

lemma gen_first_inv:
  assumes "gen_inv w0 False (Created q ps kw) w"
    and "gen_next env (Created q ps kw) (c, w) = (r, g', (c', w'))"
  shows "gen_inv w0 (fst (priv_ensure_connected env (c, w)) = Inr ()) g' w' \<and> started g'"
proof (cases "priv_ensure_connected env (c, w)")
  case (fields r1 c1 w1)
  from assms(1) have w: "trace w = trace w0" "cursors w = cursors w0"
    by (simp_all add: gen_inv_def)
  from ensure_connected_facts [OF fields] obtain ev where
    t: "trace w1 = trace w @ ev" "quiet ev" by blast
  show ?thesis
  proof (cases r1)
    case (Inl e)
    with fields assms(2) t w show ?thesis
      by (auto simp: gen_inv_def quiet_def)
  next
    case (Inr u)
    with fields have e: "priv_ensure_connected env (c, w) = (Inr (), (c1, w1))"
      by simp
    from ensure_connected_facts [OF e] obtain h where h: "db c1 = Some h"
      by auto
    let ?w2 = "emit (CursorExecute (cursors w) q (bound_of ps kw))
                 (emit (CursorOpen (cursors w) (Some h)) (w1\<lparr>cursors := Suc (cursors w)\<rparr>))"
    have s: "gen_inv w0 True (Suspended (cursors w) cols rs) ?w2" for cols rs
      using t w by (simp add: gen_inv_def quiet_def)
    show ?thesis
      using assms(2) t w e iter_loop_inv [OF s]
      by (auto simp: gen_first_runs [OF e h] Let_def gen_inv_def quiet_def
          simp del: gen_next.simps split: sum.splits if_splits)
  qed
qed

lemma gen_next_inv:
  assumes "gen_inv w0 acq g w" and "started g"
    and "gen_next env g (c, w) = (r, g', (c', w'))"
  shows "gen_inv w0 acq g' w' \<and> started g'"
proof (cases g)
  case (Created q ps kw)
  with assms(2) show ?thesis by simp
next
  case (Suspended k cols rs)
  with assms(1) have "acq" by (auto simp: gen_inv_def)
  with assms Suspended show ?thesis
    using iter_loop_inv [of w0 k cols rs w c r g' c' w'] by simp
next
  case Finished
  with assms show ?thesis by auto
qed

lemma gen_close_inv:
  assumes "gen_inv w0 acq g w" and "gen_close g (c, w) = (g', (c', w'))"
  shows "g' = Finished \<and> gen_inv w0 acq Finished w'"
  using assms
  by (cases g) (auto simp: gen_inv_def cursor_close_def split: if_splits)

lemma consume_started:
  assumes "gen_inv w0 acq g w" and "started g"
    and "consume n env g (c, w) = (r, g', (c', w'))"
  shows "gen_inv w0 acq Finished w'"
  using assms
proof (induction n arbitrary: g c w r g' c' w')
  case 0
  then show ?case
    using gen_close_inv [of w0 acq g w c g' c' w'] by simp
next
  case (Suc n)
  obtain r1 g1 c1 w1 where s: "gen_next env g (c, w) = (r1, g1, (c1, w1))"
    by (metis prod.collapse)
  from gen_next_inv [OF Suc.prems(1,2) s] have i: "gen_inv w0 acq g1 w1" "started g1"
    by simp_all
  show ?case
  proof (cases r1)
    case (Inl e)
    with Suc.prems(3) s have "gen_close g1 (c1, w1) = (g', (c', w'))"
      by simp
    from gen_close_inv [OF i(1) this] show ?thesis by simp
  next
    case (Inr x)
    obtain r2 g2 c2 w2 where t: "consume n env g1 (c1, w1) = (r2, g2, (c2, w2))"
      by (metis prod.collapse)
    with Suc.prems(3) s Inr have "w2 = w'"
      by (auto split: sum.splits)
    with Suc.IH [OF i t] show ?thesis by simp
  qed
qed

lemma consume_iter:
  assumes "consume n env (iter q ps kw) (c, w) = (r, g', (c', w'))"
  shows "gen_inv w (0 < n \<and> fst (priv_ensure_connected env (c, w)) = Inr ()) Finished w'"
proof (cases n)
  case 0
  with assms show ?thesis
    by (simp add: iter_def gen_inv_def)
next
  case (Suc m)
  have c0: "gen_inv w False (Created q ps kw) w"
    by (simp add: gen_inv_def)
  obtain r1 g1 c1 w1 where s: "gen_next env (Created q ps kw) (c, w) = (r1, g1, (c1, w1))"
    by (metis prod.collapse)
  from gen_first_inv [OF c0 s] have
    i: "gen_inv w (fst (priv_ensure_connected env (c, w)) = Inr ()) g1 w1" "started g1"
    by simp_all
  show ?thesis
  proof (cases r1)
    case (Inl e)
    with assms s Suc have "gen_close g1 (c1, w1) = (g', (c', w'))"
      by (simp add: iter_def del: gen_next.simps)
    from gen_close_inv [OF i(1) this] Suc show ?thesis by simp
  next
    case (Inr x)
    obtain r2 g2 c2 w2 where t: "consume m env g1 (c1, w1) = (r2, g2, (c2, w2))"
      by (metis prod.collapse)
    with assms s Inr Suc have "w2 = w'"
      by (auto simp: iter_def simp del: gen_next.simps split: sum.splits)
    with consume_started [OF i t] Suc show ?thesis by simp
  qed
qed

lemma consume_released:
  "released w (gen_after (consume n env (iter q ps kw) (c, w))) \<and>
   (fst (priv_ensure_connected env (c, w)) = Inr () \<and> 0 < n \<longrightarrow>
      closed_cursors (since w (gen_after (consume n env (iter q ps kw) (c, w)))) = [cursors w])"
proof -
  obtain r g' c' w' where s: "consume n env (iter q ps kw) (c, w) = (r, g', (c', w'))"
    by (metis prod.collapse)
  from consume_iter [OF s] show ?thesis
    by (auto simp: s gen_after_def gen_inv_def released_def split: if_splits)
qed

text \<open>
  C4. Every query and execute operation, batch variants and aliases included, and every
  consumer of \<open>iter\<close> that takes at most \<open>n\<close> rows and drops the generator, releases its
  cursor: whatever the driver does (the statement returns, raises \<^verbatim>\<open>IntegrityError\<close>,
  raises \<^verbatim>\<open>OperationalError\<close> or anything else), the cursors closed are the cursors
  made. When the connection check passes, a cursor is made (for \<open>iter\<close>, once a first row
  is asked for) and closed exactly once. A generator dropped before its first step has
  made no cursor.
\<close>

theorem cursor_closed_once:
  "released w (after (query env q ps kw (c, w))) \<and>
   released w (after (get env q ps kw (c, w))) \<and>
   released w (after (execute env q ps kw (c, w))) \<and>
   released w (after (execute_lastrowid env q ps kw (c, w))) \<and>
   released w (after (insert_alias env q ps kw (c, w))) \<and>
   released w (after (execute_rowcount env q ps kw (c, w))) \<and>
   released w (after (update env q ps kw (c, w))) \<and>
   released w (after (executemany env q pss (c, w))) \<and>
   released w (after (executemany_lastrowid env q pss (c, w))) \<and>
   released w (after (insertmany env q pss (c, w))) \<and>
   released w (after (executemany_rowcount env q pss (c, w))) \<and>
   released w (after (updatemany env q pss (c, w))) \<and>
   released w (gen_after (consume n env (iter q ps kw) (c, w))) \<and>
   (fst (priv_ensure_connected env (c, w)) = Inr () \<longrightarrow>
      closed_cursors (since w (after (query env q ps kw (c, w)))) = [cursors w] \<and>
      closed_cursors (since w (after (get env q ps kw (c, w)))) = [cursors w] \<and>
      closed_cursors (since w (after (execute env q ps kw (c, w)))) = [cursors w] \<and>
      closed_cursors (since w (after (execute_lastrowid env q ps kw (c, w)))) = [cursors w] \<and>
      closed_cursors (since w (after (insert_alias env q ps kw (c, w)))) = [cursors w] \<and>
      closed_cursors (since w (after (execute_rowcount env q ps kw (c, w)))) = [cursors w] \<and>
      closed_cursors (since w (after (update env q ps kw (c, w)))) = [cursors w] \<and>
      closed_cursors (since w (after (executemany env q pss (c, w)))) = [cursors w] \<and>
      closed_cursors (since w (after (executemany_lastrowid env q pss (c, w)))) = [cursors w] \<and>
      closed_cursors (since w (after (insertmany env q pss (c, w)))) = [cursors w] \<and>
      closed_cursors (since w (after (executemany_rowcount env q pss (c, w)))) = [cursors w] \<and>
      closed_cursors (since w (after (updatemany env q pss (c, w)))) = [cursors w] \<and>
      (0 < n \<longrightarrow>
         closed_cursors (since w (gen_after (consume n env (iter q ps kw) (c, w))))
           = [cursors w]))"
proof -
  note ops = get_after query_op execute_def insert_alias_def update_def executemany_def
    insertmany_def updatemany_def execute_lastrowid_op execute_rowcount_op
    executemany_lastrowid_op executemany_rowcount_op
  have 1: "released w (after (statement_op env q ps kw f (c, w)))"
    for f :: "cursor_data \<Rightarrow> exn + 'b"
    using statement_op_released [of w env q ps kw f c] by simp
  have 2: "released w (after (batch_op env q pss f (c, w)))" for f :: "cursor_data \<Rightarrow> 'b"
    using batch_op_released [of w env q pss f c] by simp
  have 3: "released w (gen_after (consume n env (iter q ps kw) (c, w)))"
    using consume_released [of w n env q ps kw c] by simp
  have 4: "closed_cursors (since w (after (statement_op env q ps kw f (c, w)))) = [cursors w]"
    if "fst (priv_ensure_connected env (c, w)) = Inr ()" for f :: "cursor_data \<Rightarrow> exn + 'b"
    using statement_op_released [of w env q ps kw f c] that by simp
  have 5: "closed_cursors (since w (after (batch_op env q pss f (c, w)))) = [cursors w]"
    if "fst (priv_ensure_connected env (c, w)) = Inr ()" for f :: "cursor_data \<Rightarrow> 'b"
    using batch_op_released [of w env q pss f c] that by simp
  have 6: "closed_cursors (since w (gen_after (consume n env (iter q ps kw) (c, w)))) = [cursors w]"
    if "fst (priv_ensure_connected env (c, w)) = Inr ()" "0 < n"
    using consume_released [of w n env q ps kw c] that by simp
  show ?thesis
    by (intro conjI impI) (simp_all only: ops 1 2 3 4 5 6)
qed

lemma duplicate_connected:
  "fst (priv_ensure_connected duplicate_env (sample_conn, world0)) = Inr ()"
  by (simp add: run_defs duplicate_env_def)

theorem cursor_closed_once_witness:
  "fst (priv_ensure_connected sample_env (sample_conn, world0)) = Inr () \<and>
   closed_cursors (since world0 (after (query sample_env ''SELECT id, name FROM t'' [PyInt 1] []
       (sample_conn, world0)))) = [0] \<and>
   fst (execute duplicate_env ''INSERT INTO t VALUES (%s)'' [PyInt 1] [] (sample_conn, world0))
     = Inl (IntegrityError ''Duplicate entry'') \<and>
   closed_cursors (since world0 (after (execute duplicate_env ''INSERT INTO t VALUES (%s)''
       [PyInt 1] [] (sample_conn, world0)))) = [0] \<and>
   fst (execute gone_env ''INSERT INTO t VALUES (%s)'' [PyInt 1] [] (sample_conn, world0))
     = Inl (OperationalError ''MySQL server has gone away'') \<and>
   closed_cursors (since world0 (after (execute gone_env ''INSERT INTO t VALUES (%s)''
       [PyInt 1] [] (sample_conn, world0)))) = [0] \<and>
   (0::nat) < 1 \<and>
   fst (consume 1 sample_env (iter ''SELECT id, name FROM t'' [PyInt 1, PyInt 2, PyInt 3] [])
       (sample_conn, world0)) = Inr [[(''id'', PyInt 1), (''name'', PyStr ''positional'')]] \<and>
   closed_cursors (since world0 (gen_after (consume 1 sample_env
       (iter ''SELECT id, name FROM t'' [PyInt 1, PyInt 2, PyInt 3] []) (sample_conn, world0)))) = [0]"
proof -
  have c0: "cursors world0 = 0"
    by (simp add: world0_def)
  have e: "priv_ensure_connected duplicate_env (sample_conn, world0) =
      (Inr (), sample_conn\<lparr>db := Some 0, last_use_time := 1000\<rparr>,
       \<lparr>clock_reads = 1, connects = 1, cursors = 0,
        trace = [ConnectCall 0 [], SetAutocommit 0]\<rparr>)"
    "priv_ensure_connected gone_env (sample_conn, world0) =
      (Inr (), sample_conn\<lparr>db := Some 0, last_use_time := 1000\<rparr>,
       \<lparr>clock_reads = 1, connects = 1, cursors = 0,
        trace = [ConnectCall 0 [], SetAutocommit 0]\<rparr>)"
    by (simp_all add: run_defs duplicate_env_def gone_env_def)
  have h: "db (sample_conn\<lparr>db := Some 0, last_use_time := 1000\<rparr>) = Some 0"
    by simp
  have g: "cursor_execute duplicate_env = (\<lambda>k q b. Inl (IntegrityError ''Duplicate entry''))"
    "cursor_execute gone_env = (\<lambda>k q b. Inl (OperationalError ''MySQL server has gone away''))"
    by (simp_all add: duplicate_env_def gone_env_def)
  have r1: "fst (execute duplicate_env ''INSERT INTO t VALUES (%s)'' [PyInt 1] []
        (sample_conn, world0)) = Inl (IntegrityError ''Duplicate entry'')"
    by (simp add: execute_def execute_lastrowid_op statement_op_runs [OF e(1) h] g Let_def)
  have r2: "fst (execute gone_env ''INSERT INTO t VALUES (%s)'' [PyInt 1] []
        (sample_conn, world0)) = Inl (OperationalError ''MySQL server has gone away'')"
    by (simp add: execute_def execute_lastrowid_op statement_op_runs [OF e(2) h] g Let_def)
  have x: "cursor_execute sample_env = (\<lambda>k q b. Inr (sample_data b))"
    by (simp add: sample_env_def)
  have r3: "fst (consume 1 sample_env (iter ''SELECT id, name FROM t'' [PyInt 1, PyInt 2, PyInt 3] [])
       (sample_conn, world0)) = Inr [[(''id'', PyInt 1), (''name'', PyStr ''positional'')]]"
    by (simp add: iter_def gen_first_runs [OF run_absent h] x sample_data_def bound_of_def
        column_names_def iter_loop_def Row_def Let_def del: gen_next.simps)
  show ?thesis
    using sample_connected r1 r2 r3
      cursor_closed_once [of world0 sample_env "''SELECT id, name FROM t''" "[PyInt 1]" "[]"
        sample_conn "[]" 1]
      cursor_closed_once [of world0 duplicate_env "''INSERT INTO t VALUES (%s)''" "[PyInt 1]" "[]"
        sample_conn "[]" 1]
      cursor_closed_once [of world0 gone_env "''INSERT INTO t VALUES (%s)''" "[PyInt 1]" "[]"
        sample_conn "[]" 1]
      cursor_closed_once [of world0 sample_env "''SELECT id, name FROM t''"
        "[PyInt 1, PyInt 2, PyInt 3]" "[]" sample_conn "[]" 1]
    unfolding c0
    by (simp add: duplicate_connected gone_connected)
qed

end
